theory Spec2Isabelle
  imports Complex_Main "HOL-Library.Log_Nat"
begin

section \<open>JavaScript numbers\<close>

text \<open>
  The component computes with JavaScript numbers, the values of IEEE 754 binary64. A
  number is \<open>NaN\<close>, one of the two infinities, or a finite double, kept as the
  rational it denotes. \<open>NaN\<close> is absorbing for arithmetic, every comparison with
  \<open>NaN\<close> is false, and \<open>NaN\<close> and \<open>0\<close> are the falsy numbers. The sign of zero is
  not kept: it shows only in a division by zero, and the component divides by 100 only.
\<close>

datatype jsnum = NaN | PInf | NInf | Fin rat

text \<open>
  Rounding to the nearest double, ties to even. For a positive rational \<open>x\<close>,
  \<open>ilog2 x\<close> is the exponent \<open>e\<close> with \<open>pow2 e \<le> x < pow2 (e + 1)\<close>. A double has
  53 significant bits, so the doubles around \<open>x\<close> are the multiples of
  \<open>pow2 (e - 52)\<close>, and the multiples of \<open>pow2 (- 1074)\<close> in the subnormal range
  below \<open>pow2 (- 1022)\<close>. A magnitude that rounds to \<open>pow2 1024\<close> or more overflows
  to an infinity.
\<close>

definition pow2 :: "int \<Rightarrow> rat" where
  "pow2 e = (if 0 \<le> e then 2 ^ nat e else 1 / 2 ^ nat (- e))"

definition ilog2 :: "rat \<Rightarrow> int" where
  "ilog2 x = (if 1 \<le> x then bitlen \<lfloor>x\<rfloor> - 1 else - bitlen (\<lceil>1 / x\<rceil> - 1))"

definition roundTiesToEven :: "rat \<Rightarrow> int" where
  "roundTiesToEven x =
     (if x - of_int \<lfloor>x\<rfloor> < 1 / 2 then \<lfloor>x\<rfloor>
      else if 1 / 2 < x - of_int \<lfloor>x\<rfloor> then \<lfloor>x\<rfloor> + 1
      else if even \<lfloor>x\<rfloor> then \<lfloor>x\<rfloor> else \<lfloor>x\<rfloor> + 1)"

definition roundMagnitude :: "rat \<Rightarrow> rat" where
  "roundMagnitude x =
     (let q = pow2 (max (ilog2 x) (- 1022) - 52)
      in of_int (roundTiesToEven (x / q)) * q)"

definition js_round :: "rat \<Rightarrow> jsnum" where
  "js_round x =
     (if x = 0 then Fin 0
      else if 1024 \<le> ilog2 (roundMagnitude \<bar>x\<bar>) then (if x < 0 then NInf else PInf)
      else Fin (if x < 0 then - roundMagnitude \<bar>x\<bar> else roundMagnitude \<bar>x\<bar>))"

fun js_neg :: "jsnum \<Rightarrow> jsnum" where
  "js_neg NaN = NaN"
| "js_neg PInf = NInf"
| "js_neg NInf = PInf"
| "js_neg (Fin a) = Fin (- a)"

fun js_add :: "jsnum \<Rightarrow> jsnum \<Rightarrow> jsnum" where
  "js_add NaN _ = NaN"
| "js_add _ NaN = NaN"
| "js_add PInf NInf = NaN"
| "js_add NInf PInf = NaN"
| "js_add PInf _ = PInf"
| "js_add _ PInf = PInf"
| "js_add NInf _ = NInf"
| "js_add _ NInf = NInf"
| "js_add (Fin a) (Fin b) = js_round (a + b)"

definition js_sub :: "jsnum \<Rightarrow> jsnum \<Rightarrow> jsnum" where
  "js_sub a b = js_add a (js_neg b)"

text \<open>The sign of a number that is not \<open>NaN\<close>: \<open>-1\<close>, \<open>0\<close> or \<open>1\<close>.\<close>

fun js_sign :: "jsnum \<Rightarrow> int" where
  "js_sign NaN = 0"
| "js_sign PInf = 1"
| "js_sign NInf = - 1"
| "js_sign (Fin a) = (if a < 0 then - 1 else if a = 0 then 0 else 1)"

fun js_mul :: "jsnum \<Rightarrow> jsnum \<Rightarrow> jsnum" where
  "js_mul NaN _ = NaN"
| "js_mul _ NaN = NaN"
| "js_mul (Fin a) (Fin b) = js_round (a * b)"
| "js_mul x y =
     (if js_sign x * js_sign y = 0 then NaN
      else if js_sign x * js_sign y < 0 then NInf else PInf)"

fun js_div :: "jsnum \<Rightarrow> jsnum \<Rightarrow> jsnum" where
  "js_div NaN _ = NaN"
| "js_div _ NaN = NaN"
| "js_div (Fin a) (Fin b) =
     (if b = 0 then (if a = 0 then NaN else if a < 0 then NInf else PInf)
      else js_round (a / b))"
| "js_div (Fin a) _ = Fin 0"
| "js_div x (Fin b) = (if (js_sign x < 0) \<noteq> (b < 0) then NInf else PInf)"
| "js_div _ _ = NaN"

fun js_lt :: "jsnum \<Rightarrow> jsnum \<Rightarrow> bool" where
  "js_lt NaN _ = False"
| "js_lt _ NaN = False"
| "js_lt _ NInf = False"
| "js_lt PInf _ = False"
| "js_lt NInf _ = True"
| "js_lt _ PInf = True"
| "js_lt (Fin a) (Fin b) = (a < b)"

definition js_gt :: "jsnum \<Rightarrow> jsnum \<Rightarrow> bool" where
  "js_gt a b = js_lt b a"

text \<open>\<open>ToBoolean\<close> on a number, as in \<open>if (this._thrPc)\<close> and \<open>!infiniteHeight\<close>.\<close>

fun truthy :: "jsnum \<Rightarrow> bool" where
  "truthy NaN = False"
| "truthy (Fin a) = (a \<noteq> 0)"
| "truthy _ = True"

section \<open>The built-in \<open>parseFloat\<close>\<close>

text \<open>
  \<open>parseFloat\<close> skips leading white space and reads the longest prefix that is a
  \<open>StrDecimalLiteral\<close>: an optional sign, then \<open>Infinity\<close> or decimal digits with
  an optional fraction and an optional exponent. Without such a prefix the result is
  \<open>NaN\<close>; otherwise it is the decimal value rounded to the nearest double. Strings are lists of 8-bit characters here, so the white space is the
  Latin-1 part of the white space of the language.
\<close>

definition isWhiteSpace :: "char \<Rightarrow> bool" where
  "isWhiteSpace c \<longleftrightarrow> (of_char c :: nat) \<in> {9, 10, 11, 12, 13, 32, 160}"

definition isDigit :: "char \<Rightarrow> bool" where
  "isDigit c \<longleftrightarrow> 48 \<le> (of_char c :: nat) \<and> (of_char c :: nat) \<le> 57"

definition digitsValue :: "string \<Rightarrow> int" where
  "digitsValue ds = foldl (\<lambda>a c. 10 * a + (of_char c - 48)) 0 ds"

text \<open>The exponent part: \<open>e\<close> or \<open>E\<close>, an optional sign and at least one digit.\<close>

definition exponentPart :: "string \<Rightarrow> int" where
  "exponentPart r =
     (case r of
        [] \<Rightarrow> 0
      | e # r1 \<Rightarrow>
          if e = CHR ''e'' \<or> e = CHR ''E'' then
            (case r1 of
               [] \<Rightarrow> 0
             | s # r2 \<Rightarrow>
                 if s = CHR ''-'' then
                   (if takeWhile isDigit r2 = [] then 0
                    else - digitsValue (takeWhile isDigit r2))
                 else if s = CHR ''+'' then
                   (if takeWhile isDigit r2 = [] then 0
                    else digitsValue (takeWhile isDigit r2))
                 else
                   (if takeWhile isDigit r1 = [] then 0
                    else digitsValue (takeWhile isDigit r1)))
          else 0)"

definition scale10 :: "rat \<Rightarrow> int \<Rightarrow> rat" where
  "scale10 m e = (if 0 \<le> e then m * 10 ^ nat e else m / 10 ^ nat (- e))"

definition strUnsignedDecimalLiteral :: "string \<Rightarrow> jsnum" where
  "strUnsignedDecimalLiteral u =
     (if take 8 u = ''Infinity'' then PInf
      else
        let ip = takeWhile isDigit u;
            r1 = dropWhile isDigit u;
            dot = (case r1 of [] \<Rightarrow> False | c # _ \<Rightarrow> c = CHR ''.'');
            fp = (if dot then takeWhile isDigit (tl r1) else []);
            r2 = (if dot then dropWhile isDigit (tl r1) else r1)
        in if ip = [] \<and> fp = [] then NaN
           else js_round (scale10 (of_int (digitsValue (ip @ fp)) / 10 ^ length fp)
                            (exponentPart r2)))"

definition parseFloat :: "string \<Rightarrow> jsnum" where
  "parseFloat s =
     (case dropWhile isWhiteSpace s of
        [] \<Rightarrow> NaN
      | c # r \<Rightarrow>
          if c = CHR ''-'' then js_neg (strUnsignedDecimalLiteral r)
          else if c = CHR ''+'' then strUnsignedDecimalLiteral r
          else strUnsignedDecimalLiteral (c # r))"

section \<open>The infinite scroll component\<close>

datatype scroll_state = STATE_ENABLED | STATE_DISABLED | STATE_LOADING

text \<open>
  The fields of an \<open>InfiniteScroll\<close> instance, followed by the state of the three
  collaborators it holds, as far as this component changes it: the subscriptions this
  component has on \<open>_content.ionScroll\<close> (one handle per call of \<open>subscribe\<close> that was
  not unsubscribed), the number of callbacks this component has queued with
  \<open>_dom.write\<close> and that did not run yet, and the number of times \<open>ionInfinite.emit\<close>
  was called. \<open>scLsn\<close> is \<open>None\<close> where the field is \<open>undefined\<close> or \<open>null\<close>.
\<close>

record InfiniteScroll =
  lastCheck :: jsnum
  highestY :: jsnum
  thr :: string
  thrPx :: jsnum
  thrPc :: jsnum
  init :: bool
  state :: scroll_state
  scLsn :: "nat option"
  ionScroll :: "nat list"
  nextSub :: nat
  domWrites :: nat
  ionInfinite :: nat

text \<open>
  What one call of \<open>_onScroll\<close> reads: the time stamp of the event, the
  \<open>scrollHeight\<close> of the component's own element (the local \<open>infiniteHeight\<close>), and
  the result \<open>d\<close> of \<open>_content.getContentDimensions()\<close>.
\<close>

record scroll_sample =
  timeStamp :: jsnum
  infiniteHeight :: jsnum
  contentHeight :: jsnum
  scrollHeight :: jsnum
  scrollTop :: jsnum

definition constructor :: InfiniteScroll where
  "constructor =
     \<lparr>lastCheck = Fin 0, highestY = Fin 0, thr = ''15%'', thrPx = Fin 0,
      thrPc = js_round (15 / 100), init = False, state = STATE_ENABLED, scLsn = None,
      ionScroll = [], nextSub = 0, domWrites = 0, ionInfinite = 0\<rparr>"

definition threshold_get :: "InfiniteScroll \<Rightarrow> string" where
  "threshold_get this = thr this"

definition threshold_set :: "InfiniteScroll \<Rightarrow> string \<Rightarrow> InfiniteScroll" where
  "threshold_set this val =
     (if CHR ''%'' \<in> set val
      then this\<lparr>thr := val, thrPx := Fin 0, thrPc := js_div (parseFloat val) (Fin 100)\<rparr>
      else this\<lparr>thr := val, thrPx := parseFloat val, thrPc := Fin 0\<rparr>)"

definition reloadY :: "InfiniteScroll \<Rightarrow> scroll_sample \<Rightarrow> jsnum" where
  "reloadY this ev =
     (if truthy (thrPc this)
      then js_add (contentHeight ev) (js_mul (contentHeight ev) (thrPc this))
      else js_add (contentHeight ev) (thrPx this))"

definition distanceFromInfinite :: "InfiniteScroll \<Rightarrow> scroll_sample \<Rightarrow> jsnum" where
  "distanceFromInfinite this ev =
     js_sub (js_sub (js_sub (scrollHeight ev) (infiniteHeight ev)) (scrollTop ev))
       (reloadY this ev)"

text \<open>
  \<open>_onScroll\<close> returns its code and the instance after the call. The callback handed
  to \<open>_dom.write\<close> is always the same closure over \<open>this\<close>, so queueing it is one
  more pending write.
\<close>

definition onScroll :: "InfiniteScroll \<Rightarrow> scroll_sample \<Rightarrow> nat \<times> InfiniteScroll" where
  "onScroll this ev =
     (if state this = STATE_LOADING \<or> state this = STATE_DISABLED then (1, this)
      else if js_gt (js_add (lastCheck this) (Fin 32)) (timeStamp ev) then (2, this)
      else
        let this1 = this\<lparr>lastCheck := timeStamp ev\<rparr> in
        if \<not> truthy (infiniteHeight ev) then (3, this1)
        else if js_lt (distanceFromInfinite this1 ev) (Fin 0)
        then (5, this1\<lparr>domWrites := domWrites this1 + 1\<rparr>)
        else (6, this1))"

text \<open>The queued callback, and the write phase running the oldest pending one.\<close>

definition writeCallback :: "InfiniteScroll \<Rightarrow> InfiniteScroll" where
  "writeCallback this =
     (if state this \<noteq> STATE_LOADING \<and> state this \<noteq> STATE_DISABLED
      then this\<lparr>state := STATE_LOADING, ionInfinite := ionInfinite this + 1\<rparr>
      else this)"

definition runWrite :: "InfiniteScroll \<Rightarrow> InfiniteScroll" where
  "runWrite this =
     (if domWrites this = 0 then this
      else writeCallback (this\<lparr>domWrites := domWrites this - 1\<rparr>))"

definition complete :: "InfiniteScroll \<Rightarrow> InfiniteScroll" where
  "complete this = this\<lparr>state := STATE_ENABLED\<rparr>"

definition setListeners :: "InfiniteScroll \<Rightarrow> bool \<Rightarrow> InfiniteScroll" where
  "setListeners this shouldListen =
     (if init this then
        (if shouldListen then
           (case scLsn this of
              None \<Rightarrow>
                this\<lparr>scLsn := Some (nextSub this),
                     ionScroll := ionScroll this @ [nextSub this],
                     nextSub := nextSub this + 1\<rparr>
            | Some h \<Rightarrow> this)
         else
           (case scLsn this of
              None \<Rightarrow> this\<lparr>scLsn := None\<rparr>
            | Some h \<Rightarrow> this\<lparr>ionScroll := removeAll h (ionScroll this), scLsn := None\<rparr>))
      else this)"

definition enable :: "InfiniteScroll \<Rightarrow> bool \<Rightarrow> InfiniteScroll" where
  "enable this shouldEnable =
     setListeners (this\<lparr>state := (if shouldEnable then STATE_ENABLED else STATE_DISABLED)\<rparr>)
       shouldEnable"

definition enabled_set :: "InfiniteScroll \<Rightarrow> bool \<Rightarrow> InfiniteScroll" where
  "enabled_set this shouldEnable = enable this shouldEnable"

definition ngAfterContentInit :: "InfiniteScroll \<Rightarrow> InfiniteScroll" where
  "ngAfterContentInit this =
     (let this1 = this\<lparr>init := True\<rparr>
      in setListeners this1 (state this1 \<noteq> STATE_DISABLED))"

definition ngOnDestroy :: "InfiniteScroll \<Rightarrow> InfiniteScroll" where
  "ngOnDestroy this = setListeners this False"

text \<open>
  A scroll event of the content is delivered to every live subscription; each one calls
  \<open>_onScroll\<close> with the event.
\<close>

definition scrollEvent :: "InfiniteScroll \<Rightarrow> scroll_sample \<Rightarrow> InfiniteScroll" where
  "scrollEvent this ev = fold (\<lambda>h t. snd (onScroll t ev)) (ionScroll this) this"

text \<open>
  Everything that can happen to an instance: the calls of its public members, a scroll
  event of the content, and the write phase running a queued callback.
\<close>

datatype action =
    SetThreshold string
  | SetEnabled bool
  | Enable bool
  | Complete
  | AfterContentInit
  | OnDestroy
  | Scroll scroll_sample
  | WritePhase

fun step :: "InfiniteScroll \<Rightarrow> action \<Rightarrow> InfiniteScroll" where
  "step this (SetThreshold val) = threshold_set this val"
| "step this (SetEnabled b) = enabled_set this b"
| "step this (Enable b) = enable this b"
| "step this Complete = complete this"
| "step this AfterContentInit = ngAfterContentInit this"
| "step this OnDestroy = ngOnDestroy this"
| "step this (Scroll ev) = scrollEvent this ev"
| "step this WritePhase = runWrite this"

definition run :: "InfiniteScroll \<Rightarrow> action list \<Rightarrow> InfiniteScroll" where
  "run this acts = foldl step this acts"

text \<open>
  The actions that no caller of the component takes: scroll events and write phases.
\<close>

fun environment_action :: "action \<Rightarrow> bool" where
  "environment_action (Scroll ev) = True"
| "environment_action WritePhase = True"
| "environment_action _ = False"

text \<open>
  The subscription field and the subscriptions of the content agree: without a stored
  subscription there is none on the content, and a stored one is the only one and was
  made after \<open>ngAfterContentInit\<close>.
\<close>

definition subscription_inv :: "InfiniteScroll \<Rightarrow> bool" where
  "subscription_inv this =
     (case scLsn this of
        None \<Rightarrow> ionScroll this = []
      | Some h \<Rightarrow> init this \<and> ionScroll this = [h])"

text \<open>
  The passing of the guards of \<open>_onScroll\<close>: the state guard, the throttle and the
  height of the component's element.
\<close>

definition past_throttle :: "InfiniteScroll \<Rightarrow> scroll_sample \<Rightarrow> bool" where
  "past_throttle this ev \<longleftrightarrow>
     state this \<noteq> STATE_LOADING \<and> state this \<noteq> STATE_DISABLED \<and>
     \<not> js_gt (js_add (lastCheck this) (Fin 32)) (timeStamp ev)"

definition past_guards :: "InfiniteScroll \<Rightarrow> scroll_sample \<Rightarrow> bool" where
  "past_guards this ev \<longleftrightarrow> past_throttle this ev \<and> truthy (infiniteHeight ev)"

text \<open>
  The distance as the specification words it, with the content height of the metrics
  subtracted from the total scroll height:
  \<open>distanceFromEnd = (totalScrollHeight - contentHeight - currentScrollOffset) - reloadY\<close>.
\<close>

definition spec_distanceFromEnd :: "InfiniteScroll \<Rightarrow> scroll_sample \<Rightarrow> jsnum" where
  "spec_distanceFromEnd this ev =
     js_sub (js_sub (js_sub (scrollHeight ev) (contentHeight ev)) (scrollTop ev))
       (reloadY this ev)"

section \<open>Rounding is exact on integers\<close>

lemma roundTiesToEven_of_int: "roundTiesToEven (of_int m) = m"
  by (simp add: roundTiesToEven_def)

lemma ilog2_of_int: "0 < k \<Longrightarrow> ilog2 (of_int k) = bitlen k - 1"
  by (simp add: ilog2_def)

lemma bitlen_less_53:
  assumes "0 < k" "k < 2 ^ 53"
  shows "1 \<le> bitlen k \<and> bitlen k \<le> 53"
proof -
  from bitlen_bounds [OF assms(1)] have b: "2 ^ nat (bitlen k - 1) \<le> k"
    by simp
  from assms(1) have p: "1 \<le> bitlen k"
    using bitlen_eq_zero_iff [of k] bitlen_nonneg [of k] by linarith
  from b assms(2) have lt: "(2::int) ^ nat (bitlen k - 1) < 2 ^ 53"
    by linarith
  have "nat (bitlen k - 1) < 53"
    by (rule power_less_imp_less_exp [OF _ lt]) simp
  with p show ?thesis
    by linarith
qed

lemma roundMagnitude_of_int:
  assumes "0 < k" "k < 2 ^ 53"
  shows "roundMagnitude (of_int k) = of_int k"
proof -
  from bitlen_less_53 [OF assms] have b: "1 \<le> bitlen k" "bitlen k \<le> 53"
    by simp_all
  define n where "n = nat (53 - bitlen k)"
  have e: "max (ilog2 (of_int k)) (- 1022) - 52 = - int n"
    using b by (simp add: ilog2_of_int [OF assms(1)] n_def max_def)
  have q: "pow2 (- int n) = 1 / 2 ^ n"
    by (simp add: pow2_def)
  have d: "(of_int k :: rat) / (1 / 2 ^ n) = of_int (k * 2 ^ n)"
    by simp
  show ?thesis
    by (simp only: roundMagnitude_def Let_def e q d roundTiesToEven_of_int) simp
qed

lemma js_round_of_int:
  assumes "\<bar>k\<bar> < 2 ^ 53"
  shows "js_round (of_int k) = Fin (of_int k)"
proof (cases "k = 0")
  case True
  then show ?thesis
    by (simp add: js_round_def)
next
  case False
  then have p: "0 < \<bar>k\<bar>"
    by simp
  have a: "\<bar>of_int k :: rat\<bar> = of_int \<bar>k\<bar>"
    by simp
  note m = roundMagnitude_of_int [OF p assms]
  have "ilog2 (of_int \<bar>k\<bar>) = bitlen \<bar>k\<bar> - 1"
    by (rule ilog2_of_int [OF p])
  with bitlen_less_53 [OF p assms] have "ilog2 (of_int \<bar>k\<bar>) < 1024"
    by linarith
  then have o: "\<not> 1024 \<le> ilog2 (roundMagnitude \<bar>of_int k\<bar>)"
    by (simp only: a m not_le)
  show ?thesis
    using False o by (simp only: js_round_def a m) (simp add: abs_if)
qed

lemma js_round_0 [simp]: "js_round 0 = Fin 0"
  by (simp add: js_round_def)

lemma js_round_1 [simp]: "js_round 1 = Fin 1"
  using js_round_of_int [of 1] by simp

lemma js_round_neg_1 [simp]: "js_round (- 1) = Fin (- 1)"
  using js_round_of_int [of "- 1"] by simp

lemma js_round_numeral [simp]:
  "(numeral n :: int) < 9007199254740992 \<Longrightarrow> js_round (numeral n) = Fin (numeral n)"
  using js_round_of_int [of "numeral n"] by simp

lemma js_round_neg_numeral [simp]:
  "(numeral n :: int) < 9007199254740992 \<Longrightarrow> js_round (- numeral n) = Fin (- numeral n)"
  using js_round_of_int [of "- numeral n"] by simp

lemma js_round_not_NaN: "js_round x \<noteq> NaN"
  by (simp add: js_round_def)

section \<open>Basic facts about the operations\<close>

lemma onScroll_past_guards:
  "past_guards this ev \<Longrightarrow>
   onScroll this ev =
     (if js_lt (distanceFromInfinite this ev) (Fin 0)
      then (5, this\<lparr>lastCheck := timeStamp ev, domWrites := domWrites this + 1\<rparr>)
      else (6, this\<lparr>lastCheck := timeStamp ev\<rparr>))"
  by (simp add: past_guards_def past_throttle_def onScroll_def Let_def
      distanceFromInfinite_def reloadY_def)


lemma onScroll_domWrites:
  "domWrites (snd (onScroll this ev)) =
     (if fst (onScroll this ev) = 5 then domWrites this + 1 else domWrites this)"
  by (simp add: onScroll_def Let_def)

lemma onScroll_frame:
  "thr (snd (onScroll this ev)) = thr this"
  "thrPx (snd (onScroll this ev)) = thrPx this"
  "thrPc (snd (onScroll this ev)) = thrPc this"
  "init (snd (onScroll this ev)) = init this"
  "state (snd (onScroll this ev)) = state this"
  "scLsn (snd (onScroll this ev)) = scLsn this"
  "ionScroll (snd (onScroll this ev)) = ionScroll this"
  "nextSub (snd (onScroll this ev)) = nextSub this"
  "ionInfinite (snd (onScroll this ev)) = ionInfinite this"
  by (simp_all add: onScroll_def Let_def)

lemma onScroll_suppressed_aux:
  "state this = STATE_LOADING \<or> state this = STATE_DISABLED \<Longrightarrow> onScroll this ev = (1, this)"
  by (auto simp add: onScroll_def)

lemma fold_onScroll_suppressed:
  "state this = STATE_LOADING \<or> state this = STATE_DISABLED \<Longrightarrow>
   fold (\<lambda>h t. snd (onScroll t ev)) hs this = this"
  by (induction hs) (simp_all add: onScroll_suppressed_aux)

lemma scrollEvent_suppressed:
  "state this = STATE_LOADING \<or> state this = STATE_DISABLED \<Longrightarrow> scrollEvent this ev = this"
  by (simp add: scrollEvent_def fold_onScroll_suppressed)

lemma scrollEvent_inv:
  "subscription_inv this \<Longrightarrow>
   scrollEvent this ev = (if scLsn this = None then this else snd (onScroll this ev))"
  by (auto simp add: subscription_inv_def scrollEvent_def onScroll_frame split: option.splits)

lemma setListeners_inv: "subscription_inv this \<Longrightarrow> subscription_inv (setListeners this b)"
  by (auto simp add: subscription_inv_def setListeners_def split: option.splits)

lemma step_inv: "subscription_inv this \<Longrightarrow> subscription_inv (step this a)"
proof (cases a)
  case (Scroll ev)
  assume "subscription_inv this"
  then show ?thesis using Scroll
    by (auto simp add: scrollEvent_inv) (auto simp add: subscription_inv_def onScroll_frame split: option.splits)
next
  case WritePhase
  assume "subscription_inv this"
  then show ?thesis using WritePhase
    by (auto simp add: subscription_inv_def runWrite_def writeCallback_def split: option.splits)
next
  case (SetThreshold v)
  assume "subscription_inv this"
  then show ?thesis using SetThreshold
    by (auto simp add: subscription_inv_def threshold_set_def split: option.splits)
next
  case Complete
  assume "subscription_inv this"
  then show ?thesis using Complete
    by (auto simp add: subscription_inv_def complete_def split: option.splits)
next
  case (SetEnabled b)
  assume "subscription_inv this"
  then have "subscription_inv (this\<lparr>state := (if b then STATE_ENABLED else STATE_DISABLED)\<rparr>)"
    by (auto simp add: subscription_inv_def split: option.splits)
  then show ?thesis using SetEnabled
    by (simp add: enabled_set_def enable_def setListeners_inv)
next
  case (Enable b)
  assume "subscription_inv this"
  then have "subscription_inv (this\<lparr>state := (if b then STATE_ENABLED else STATE_DISABLED)\<rparr>)"
    by (auto simp add: subscription_inv_def split: option.splits)
  then show ?thesis using Enable
    by (simp add: enable_def setListeners_inv)
next
  case AfterContentInit
  assume "subscription_inv this"
  then show ?thesis using AfterContentInit
    by (auto simp add: ngAfterContentInit_def Let_def subscription_inv_def setListeners_def split: option.splits)
next
  case OnDestroy
  assume "subscription_inv this"
  then show ?thesis using OnDestroy
    by (simp add: ngOnDestroy_def setListeners_inv)
qed

lemma run_inv: "subscription_inv this \<Longrightarrow> subscription_inv (run this acts)"
  unfolding run_def by (induction acts arbitrary: this) (simp_all add: step_inv)

lemma constructor_inv: "subscription_inv constructor"
  by (simp add: subscription_inv_def constructor_def)

lemma reachable_inv: "subscription_inv (run constructor acts)"
  by (rule run_inv [OF constructor_inv])

lemma parseFloat_15: "parseFloat ''15%'' = Fin 15"
  by code_simp

text \<open>The default threshold: the double nearest to 0.15, and its products used below.\<close>

lemma default_thrPc_value:
  "js_round (3 / 20) = Fin (5404319552844595 / 36028797018963968)"
  by code_simp

lemma default_thrPc_truthy [simp]: "truthy (js_round (3 / 20))"
  by code_simp

lemma default_thrPc_1000 [simp]: "js_mul (Fin 1000) (js_round (3 / 20)) = Fin 150"
  by code_simp

lemma default_thrPc_600 [simp]: "js_mul (Fin 600) (js_round (3 / 20)) = Fin 90"
  by code_simp

lemma default_thrPc_0 [simp]: "js_mul (Fin 0) (js_round (3 / 20)) = Fin 0"
  by code_simp

lemma js_sub_of_int:
  assumes "\<bar>a - b\<bar> < 2 ^ 53"
  shows "js_sub (Fin (of_int a)) (Fin (of_int b)) = Fin (of_int (a - b))"
proof -
  have "js_sub (Fin (of_int a)) (Fin (of_int b)) = js_round (of_int (a - b))"
    by (simp add: js_sub_def)
  with js_round_of_int [OF assms] show ?thesis
    by simp
qed

lemma js_add_of_int:
  assumes "\<bar>a + b\<bar> < 2 ^ 53"
  shows "js_add (Fin (of_int a)) (Fin (of_int b)) = Fin (of_int (a + b))"
proof -
  have "js_add (Fin (of_int a)) (Fin (of_int b)) = js_round (of_int (a + b))"
    by simp
  with js_round_of_int [OF assms] show ?thesis
    by simp
qed

lemma scenario_start:
  "threshold_set (ngAfterContentInit constructor) ''15%'' =
     \<lparr>lastCheck = Fin 0, highestY = Fin 0, thr = ''15%'', thrPx = Fin 0,
      thrPc = js_round (15 / 100), init = True, state = STATE_ENABLED, scLsn = Some 0,
      ionScroll = [0], nextSub = 1, domWrites = 0, ionInfinite = 0\<rparr>"
  by (simp add: threshold_set_def ngAfterContentInit_def constructor_def setListeners_def
      parseFloat_15)

lemma writeCallback_loading:
  "state this = STATE_LOADING \<or> state this = STATE_DISABLED \<Longrightarrow> writeCallback this = this"
  by (auto simp add: writeCallback_def)

lemma runWrite_suppressed:
  "state this = STATE_LOADING \<or> state this = STATE_DISABLED \<Longrightarrow>
   state (runWrite this) = state this \<and> ionInfinite (runWrite this) = ionInfinite this"
  by (auto simp add: runWrite_def writeCallback_def)

lemma environment_step_suppressed:
  "state this = STATE_LOADING \<or> state this = STATE_DISABLED \<Longrightarrow> environment_action a \<Longrightarrow>
   state (step this a) = state this \<and> ionInfinite (step this a) = ionInfinite this"
  by (cases a) (simp_all add: scrollEvent_suppressed runWrite_suppressed)

lemma environment_run_suppressed:
  "state this = STATE_LOADING \<or> state this = STATE_DISABLED \<Longrightarrow>
   list_all environment_action acts \<Longrightarrow>
   state (run this acts) = state this \<and> ionInfinite (run this acts) = ionInfinite this"
proof (induction acts arbitrary: this)
  case Nil
  then show ?case by (simp add: run_def)
next
  case (Cons a acts)
  from Cons.prems have a: "environment_action a" and r: "list_all environment_action acts"
    by simp_all
  note s = environment_step_suppressed [OF Cons.prems(1) a]
  from Cons.prems(1) s have "state (step this a) = STATE_LOADING \<or> state (step this a) = STATE_DISABLED"
    by simp
  from Cons.IH [OF this r] s show ?case
    by (simp add: run_def)
qed

lemma fold_onScroll_no_height:
  "\<not> truthy (infiniteHeight ev) \<Longrightarrow>
   domWrites (fold (\<lambda>h t. snd (onScroll t ev)) hs this) = domWrites this"
  by (induction hs arbitrary: this) (simp_all add: onScroll_def Let_def)



lemma setListeners_frame:
  "lastCheck (setListeners this b) = lastCheck this"
  "thr (setListeners this b) = thr this"
  "thrPx (setListeners this b) = thrPx this"
  "thrPc (setListeners this b) = thrPc this"
  "state (setListeners this b) = state this"
  "domWrites (setListeners this b) = domWrites this"
  "ionInfinite (setListeners this b) = ionInfinite this"
  by (simp_all add: setListeners_def split: option.splits)

lemma fold_onScroll_frame:
  "thrPx (fold (\<lambda>h t. snd (onScroll t ev)) hs this) = thrPx this \<and>
   thrPc (fold (\<lambda>h t. snd (onScroll t ev)) hs this) = thrPc this \<and>
   state (fold (\<lambda>h t. snd (onScroll t ev)) hs this) = state this \<and>
   ionInfinite (fold (\<lambda>h t. snd (onScroll t ev)) hs this) = ionInfinite this"
  by (induction hs arbitrary: this) (simp_all add: onScroll_frame)

lemma step_threshold_frame:
  "\<forall>v. a \<noteq> SetThreshold v \<Longrightarrow>
   thrPx (step this a) = thrPx this \<and> thrPc (step this a) = thrPc this"
  by (cases a)
    (simp_all add: enabled_set_def enable_def setListeners_frame complete_def
      ngAfterContentInit_def ngOnDestroy_def scrollEvent_def fold_onScroll_frame
      runWrite_def writeCallback_def)





lemma runWrite_disabled_funpow:
  "state this = STATE_DISABLED \<Longrightarrow>
   state ((runWrite ^^ n) this) = STATE_DISABLED \<and>
   ionInfinite ((runWrite ^^ n) this) = ionInfinite this"
  by (induction n) (simp_all add: runWrite_suppressed)

lemma threshold_set_one_cleared:
  "thrPx (threshold_set this val) = Fin 0 \<or> thrPc (threshold_set this val) = Fin 0"
  by (simp add: threshold_set_def)

lemma step_one_cleared:
  "thrPx this = Fin 0 \<or> thrPc this = Fin 0 \<Longrightarrow>
   thrPx (step this a) = Fin 0 \<or> thrPc (step this a) = Fin 0"
proof (cases "\<exists>v. a = SetThreshold v")
  case True
  then obtain v where "a = SetThreshold v"
    by blast
  with threshold_set_one_cleared [of this v] show ?thesis
    by simp
next
  case False
  assume "thrPx this = Fin 0 \<or> thrPc this = Fin 0"
  with False step_threshold_frame [of a this] show ?thesis
    by simp
qed

lemma run_one_cleared:
  "thrPx this = Fin 0 \<or> thrPc this = Fin 0 \<Longrightarrow>
   thrPx (run this acts) = Fin 0 \<or> thrPc (run this acts) = Fin 0"
  unfolding run_def by (induction acts arbitrary: this) (simp_all add: step_one_cleared)

lemma enable_True_idem: "enable (enable this True) True = enable this True"
  by (simp add: enable_def setListeners_def split: option.splits)

lemma subscription_inv_length: "subscription_inv this \<Longrightarrow> length (ionScroll this) \<le> 1"
  by (simp add: subscription_inv_def split: option.splits)

lemma enable_inv: "subscription_inv this \<Longrightarrow> subscription_inv (enable this b)"
  using step_inv [of this "Enable b"] by simp

lemma enable_True_subscribed:
  "subscription_inv this \<Longrightarrow> init this \<Longrightarrow>
   \<exists>h. scLsn (enable this True) = Some h \<and> ionScroll (enable this True) = [h]"
  by (auto simp add: subscription_inv_def enable_def setListeners_def split: option.splits)

lemma enable_False_unsubscribed:
  "subscription_inv this \<Longrightarrow>
   scLsn (enable this False) = None \<and> ionScroll (enable this False) = [] \<and>
   state (enable this False) = STATE_DISABLED"
  by (auto simp add: subscription_inv_def enable_def setListeners_def split: option.splits)

lemma run_scrolls_unsubscribed:
  "ionScroll this = [] \<Longrightarrow> run this (map Scroll evs) = this"
  unfolding run_def by (induction evs) (simp_all add: scrollEvent_def)

lemma run_environment_idle:
  "ionScroll this = [] \<Longrightarrow> domWrites this = 0 \<Longrightarrow> list_all environment_action es \<Longrightarrow>
   run this es = this"
proof (induction es)
  case Nil
  then show ?case by (simp add: run_def)
next
  case (Cons a es)
  from Cons.prems have "step this a = this"
    by (cases a) (simp_all add: scrollEvent_def runWrite_def)
  with Cons show ?case
    by (simp add: run_def)
qed

lemma js_div_100_NaN: "js_div x (Fin 100) = NaN \<longleftrightarrow> x = NaN"
  by (cases x) (simp_all add: js_round_not_NaN)

section \<open>The claims\<close>

text \<open>
  C4. A scroll sample that arrives while the state is \<open>loading\<close> or \<open>disabled\<close> is a
  no-op: \<open>_onScroll\<close> returns 1 and changes nothing, whatever the geometry and the time
  stamp of the sample, so no write is queued; the delivery of the scroll event to the
  subscriptions changes nothing either.
\<close>

theorem onScroll_suppressed:
  "state this = STATE_LOADING \<or> state this = STATE_DISABLED \<Longrightarrow>
   onScroll this ev = (1, this) \<and>
   domWrites (snd (onScroll this ev)) = domWrites this \<and>
   scrollEvent this ev = this"
  by (simp add: onScroll_suppressed_aux scrollEvent_suppressed)

theorem onScroll_suppressed_witness:
  "(state (constructor\<lparr>state := STATE_DISABLED\<rparr>) = STATE_LOADING \<or>
    state (constructor\<lparr>state := STATE_DISABLED\<rparr>) = STATE_DISABLED) \<and>
   onScroll (constructor\<lparr>state := STATE_DISABLED\<rparr>)
     \<lparr>timeStamp = Fin 1000, infiniteHeight = Fin 1000, contentHeight = Fin 1000,
      scrollHeight = Fin 1200, scrollTop = Fin 200\<rparr> =
     (1, constructor\<lparr>state := STATE_DISABLED\<rparr>)"
proof -
  have h: "state (constructor\<lparr>state := STATE_DISABLED\<rparr>) = STATE_LOADING \<or>
    state (constructor\<lparr>state := STATE_DISABLED\<rparr>) = STATE_DISABLED"
    by simp
  from onScroll_suppressed [OF h] h show ?thesis
    by simp
qed

text \<open>
  C1, amended. For every sample that passes the state guard, the throttle and the guard
  on the height of the component's own element, \<open>reloadY\<close> is the content height plus
  the content height times \<open>_thrPc\<close> when \<open>_thrPc\<close> is truthy and plus \<open>_thrPx\<close>
  otherwise, the distance is
  \<open>(d.scrollHeight - infiniteHeight - d.scrollTop) - reloadY\<close>, where
  \<open>infiniteHeight\<close> is the scroll height of the component's own element and not the
  content height, and a write is queued exactly when the distance is below 0. With the
  threshold \<open>15%\<close>, content height 1000, scroll height 1200 and scroll top 200, for
  every height \<open>h\<close> of the element that is a positive whole number (a scroll height
  is one) and every time stamp from 32 on, \<open>reloadY\<close> is 1150, the distance is
  \<open>-150 - h\<close> (\<open>-1150\<close> for \<open>h = 1000\<close>), one write is queued, the write phase sets
  the state to \<open>loading\<close> and emits once, and no later scroll event or write phase
  emits again.
\<close>

theorem onScroll_threshold_crossing:
  "(past_guards this ev \<longrightarrow>
      reloadY this ev =
        js_add (contentHeight ev)
          (if truthy (thrPc this) then js_mul (contentHeight ev) (thrPc this) else thrPx this) \<and>
      distanceFromInfinite this ev =
        js_sub (js_sub (js_sub (scrollHeight ev) (infiniteHeight ev)) (scrollTop ev))
          (reloadY this ev) \<and>
      onScroll this ev =
        (if js_lt (distanceFromInfinite this ev) (Fin 0)
         then (5, this\<lparr>lastCheck := timeStamp ev, domWrites := domWrites this + 1\<rparr>)
         else (6, this\<lparr>lastCheck := timeStamp ev\<rparr>))) \<and>
   (0 < k \<and> k < 2 ^ 52 \<and> 32 \<le> t \<and> list_all environment_action acts \<longrightarrow>
      (let this0 = threshold_set (ngAfterContentInit constructor) ''15%'';
           ev0 = \<lparr>timeStamp = Fin t, infiniteHeight = Fin (of_int k),
                  contentHeight = Fin 1000, scrollHeight = Fin 1200, scrollTop = Fin 200\<rparr>;
           this1 = scrollEvent this0 ev0;
           this2 = runWrite this1
       in reloadY this0 ev0 = Fin 1150 \<and>
          distanceFromInfinite this0 ev0 = Fin (- 150 - of_int k) \<and>
          fst (onScroll this0 ev0) = 5 \<and>
          domWrites this1 = 1 \<and> state this1 = STATE_ENABLED \<and> ionInfinite this1 = 0 \<and>
          domWrites this2 = 0 \<and> state this2 = STATE_LOADING \<and> ionInfinite this2 = 1 \<and>
          ionInfinite (run this2 acts) = 1))"
proof (intro conjI impI)
  assume "past_guards this ev"
  then show "onScroll this ev =
        (if js_lt (distanceFromInfinite this ev) (Fin 0)
         then (5, this\<lparr>lastCheck := timeStamp ev, domWrites := domWrites this + 1\<rparr>)
         else (6, this\<lparr>lastCheck := timeStamp ev\<rparr>))"
    by (rule onScroll_past_guards)
next
  show "reloadY this ev =
        js_add (contentHeight ev)
          (if truthy (thrPc this) then js_mul (contentHeight ev) (thrPc this) else thrPx this)"
    by (simp add: reloadY_def)
next
  show "distanceFromInfinite this ev =
        js_sub (js_sub (js_sub (scrollHeight ev) (infiniteHeight ev)) (scrollTop ev))
          (reloadY this ev)"
    by (simp add: distanceFromInfinite_def)
next
  assume a: "0 < k \<and> k < 2 ^ 52 \<and> 32 \<le> t \<and> list_all environment_action acts"
  define this0 where "this0 = threshold_set (ngAfterContentInit constructor) ''15%''"
  define ev0 where "ev0 = \<lparr>timeStamp = Fin t, infiniteHeight = Fin (of_int k),
                  contentHeight = Fin 1000, scrollHeight = Fin 1200, scrollTop = Fin 200\<rparr>"
  have r: "reloadY this0 ev0 = Fin 1150"
    by (simp add: this0_def ev0_def scenario_start reloadY_def)
  from a have b: "\<bar>1200 - k\<bar> < 2 ^ 53" "\<bar>(1200 - k) - 200\<bar> < 2 ^ 53"
    "\<bar>(1000 - k) - 1150\<bar> < 2 ^ 53"
    by (simp_all add: abs_if)
  have d1: "js_sub (Fin 1200) (Fin (of_int k)) = Fin (of_int (1200 - k))"
    using js_sub_of_int [OF b(1)] by simp
  have d2: "js_sub (Fin (of_int (1200 - k))) (Fin 200) = Fin (of_int (1000 - k))"
    using js_sub_of_int [OF b(2)] by simp
  have d3: "js_sub (Fin (of_int (1000 - k))) (Fin 1150) = Fin (of_int (- 150 - k))"
    using js_sub_of_int [OF b(3)] by simp
  have v: "scrollHeight ev0 = Fin 1200" "infiniteHeight ev0 = Fin (of_int k)"
    "scrollTop ev0 = Fin 200"
    by (simp_all add: ev0_def)
  have "distanceFromInfinite this0 ev0 = Fin (of_int (- 150 - k))"
    by (simp only: distanceFromInfinite_def r v d1 d2 d3)
  then have d: "distanceFromInfinite this0 ev0 = Fin (- 150 - of_int k)"
    by simp
  have g: "past_guards this0 ev0"
    using a by (simp add: past_guards_def past_throttle_def this0_def ev0_def scenario_start js_gt_def)
  have o: "onScroll this0 ev0 = (5, this0\<lparr>lastCheck := Fin t, domWrites := 1\<rparr>)"
    using a by (simp add: onScroll_past_guards [OF g] d) (simp add: this0_def ev0_def scenario_start)
  have i: "subscription_inv this0"
    by (simp add: this0_def scenario_start subscription_inv_def)
  have s1: "scrollEvent this0 ev0 = this0\<lparr>lastCheck := Fin t, domWrites := 1\<rparr>"
    by (simp add: scrollEvent_inv [OF i] o) (simp add: this0_def scenario_start)
  have s2: "runWrite (scrollEvent this0 ev0) =
      this0\<lparr>lastCheck := Fin t, domWrites := 0, state := STATE_LOADING, ionInfinite := 1\<rparr>"
    by (simp add: s1 runWrite_def writeCallback_def) (simp add: this0_def scenario_start)
  have e: "state this0 = STATE_ENABLED" "ionInfinite this0 = 0"
    by (simp_all add: this0_def scenario_start)
  have p1: "domWrites (scrollEvent this0 ev0) = 1 \<and>
      state (scrollEvent this0 ev0) = STATE_ENABLED \<and>
      ionInfinite (scrollEvent this0 ev0) = 0"
    by (simp add: s1 e)
  have p2: "domWrites (runWrite (scrollEvent this0 ev0)) = 0 \<and>
      state (runWrite (scrollEvent this0 ev0)) = STATE_LOADING \<and>
      ionInfinite (runWrite (scrollEvent this0 ev0)) = 1"
    by (simp add: s2)
  have s3: "ionInfinite (run (runWrite (scrollEvent this0 ev0)) acts) = 1"
    using environment_run_suppressed [of "runWrite (scrollEvent this0 ev0)" acts] a
    by (simp add: s2)
  show "(let this0 = threshold_set (ngAfterContentInit constructor) ''15%'';
           ev0 = \<lparr>timeStamp = Fin t, infiniteHeight = Fin (of_int k),
                  contentHeight = Fin 1000, scrollHeight = Fin 1200, scrollTop = Fin 200\<rparr>;
           this1 = scrollEvent this0 ev0;
           this2 = runWrite this1
       in reloadY this0 ev0 = Fin 1150 \<and>
          distanceFromInfinite this0 ev0 = Fin (- 150 - of_int k) \<and>
          fst (onScroll this0 ev0) = 5 \<and>
          domWrites this1 = 1 \<and> state this1 = STATE_ENABLED \<and> ionInfinite this1 = 0 \<and>
          domWrites this2 = 0 \<and> state this2 = STATE_LOADING \<and> ionInfinite this2 = 1 \<and>
          ionInfinite (run this2 acts) = 1)"
    unfolding Let_def this0_def [symmetric] ev0_def [symmetric]
    using r d o s3 p1 p2 by simp
qed

theorem onScroll_threshold_crossing_witness:
  "past_guards (threshold_set (ngAfterContentInit constructor) ''15%'')
     \<lparr>timeStamp = Fin 1000, infiniteHeight = Fin 1000, contentHeight = Fin 1000,
      scrollHeight = Fin 1200, scrollTop = Fin 200\<rparr> \<and>
   (0::int) < 1000 \<and> (1000::int) < 2 ^ 52 \<and> (32::rat) \<le> 1000 \<and>
   list_all environment_action
     [Scroll \<lparr>timeStamp = Fin 1000, infiniteHeight = Fin 1000, contentHeight = Fin 1000,
        scrollHeight = Fin 1200, scrollTop = Fin 200\<rparr>, WritePhase] \<and>
   distanceFromInfinite (threshold_set (ngAfterContentInit constructor) ''15%'')
     \<lparr>timeStamp = Fin 1000, infiniteHeight = Fin 1000, contentHeight = Fin 1000,
      scrollHeight = Fin 1200, scrollTop = Fin 200\<rparr> = Fin (- 1150) \<and>
   fst (onScroll (threshold_set (ngAfterContentInit constructor) ''15%'')
     \<lparr>timeStamp = Fin 1000, infiniteHeight = Fin 1000, contentHeight = Fin 1000,
      scrollHeight = Fin 1200, scrollTop = Fin 200\<rparr>) = 5 \<and>
   ionInfinite (run (runWrite (scrollEvent (threshold_set (ngAfterContentInit constructor) ''15%'')
     \<lparr>timeStamp = Fin 1000, infiniteHeight = Fin 1000, contentHeight = Fin 1000,
      scrollHeight = Fin 1200, scrollTop = Fin 200\<rparr>))
     [Scroll \<lparr>timeStamp = Fin 1000, infiniteHeight = Fin 1000, contentHeight = Fin 1000,
        scrollHeight = Fin 1200, scrollTop = Fin 200\<rparr>, WritePhase]) = 1"
proof -
  let ?W = "threshold_set (ngAfterContentInit constructor) ''15%''"
  let ?E = "\<lparr>timeStamp = Fin 1000, infiniteHeight = Fin 1000, contentHeight = Fin 1000,
      scrollHeight = Fin 1200, scrollTop = Fin 200\<rparr>"
  have g: "past_guards ?W ?E"
    by (simp add: scenario_start past_guards_def past_throttle_def js_gt_def)
  have l: "list_all environment_action [Scroll ?E, WritePhase]"
    by simp
  have n: "(0::int) < 1000 \<and> (1000::int) < 2 ^ 52 \<and> (32::rat) \<le> 1000 \<and>
      list_all environment_action [Scroll ?E, WritePhase]"
    by simp
  note T = onScroll_threshold_crossing [of ?W ?E 1000 1000 "[Scroll ?E, WritePhase]"]
  from T [THEN conjunct1, THEN mp, OF g] have c: "fst (onScroll ?W ?E) = 5 \<or> fst (onScroll ?W ?E) = 6"
    by (simp split: if_splits)
  from T [THEN conjunct2, THEN mp, OF n] have
    "distanceFromInfinite ?W ?E = Fin (- 1150) \<and> fst (onScroll ?W ?E) = 5 \<and>
     ionInfinite (run (runWrite (scrollEvent ?W ?E)) [Scroll ?E, WritePhase]) = 1"
    by (simp add: Let_def)
  with g c show ?thesis
    by simp
qed

text \<open>
  C1 as stated subtracts the content height of the metrics from the total scroll
  height. With the default threshold, content height 600, scroll height 2000, scroll top
  800 and an element of height 60, that distance is \<open>-90\<close>, below 0, and the sample
  passes all guards; \<open>_onScroll\<close> computes \<open>(2000 - 60 - 800) - 690 = 450\<close>, returns 6
  and queues nothing.
\<close>

theorem onScroll_spec_distance_counterexample:
  "past_guards (ngAfterContentInit constructor)
     \<lparr>timeStamp = Fin 1000, infiniteHeight = Fin 60, contentHeight = Fin 600,
      scrollHeight = Fin 2000, scrollTop = Fin 800\<rparr> \<and>
   spec_distanceFromEnd (ngAfterContentInit constructor)
     \<lparr>timeStamp = Fin 1000, infiniteHeight = Fin 60, contentHeight = Fin 600,
      scrollHeight = Fin 2000, scrollTop = Fin 800\<rparr> = Fin (- 90) \<and>
   js_lt (spec_distanceFromEnd (ngAfterContentInit constructor)
     \<lparr>timeStamp = Fin 1000, infiniteHeight = Fin 60, contentHeight = Fin 600,
      scrollHeight = Fin 2000, scrollTop = Fin 800\<rparr>) (Fin 0) \<and>
   onScroll (ngAfterContentInit constructor)
     \<lparr>timeStamp = Fin 1000, infiniteHeight = Fin 60, contentHeight = Fin 600,
      scrollHeight = Fin 2000, scrollTop = Fin 800\<rparr> =
   (6, ngAfterContentInit constructor\<lparr>lastCheck := Fin 1000\<rparr>) \<and>
   domWrites (snd (onScroll (ngAfterContentInit constructor)
     \<lparr>timeStamp = Fin 1000, infiniteHeight = Fin 60, contentHeight = Fin 600,
      scrollHeight = Fin 2000, scrollTop = Fin 800\<rparr>)) = 0"
  by (simp add: ngAfterContentInit_def constructor_def setListeners_def past_guards_def
      past_throttle_def js_gt_def spec_distanceFromEnd_def reloadY_def js_sub_def onScroll_def
      distanceFromInfinite_def)

text \<open>
  C8. The comparison of the distance with 0 is strict: for every sample that passes the
  guards, a distance of 0 queues no write (code 6) and a distance of \<open>-1\<close> queues one
  (code 5); for every finite distance \<open>d\<close>, a write is queued exactly when \<open>d < 0\<close>.
\<close>

theorem onScroll_strictly_negative:
  "past_guards this ev \<Longrightarrow>
   (distanceFromInfinite this ev = Fin 0 \<longrightarrow>
      onScroll this ev = (6, this\<lparr>lastCheck := timeStamp ev\<rparr>)) \<and>
   (distanceFromInfinite this ev = Fin (- 1) \<longrightarrow>
      onScroll this ev = (5, this\<lparr>lastCheck := timeStamp ev, domWrites := domWrites this + 1\<rparr>)) \<and>
   (\<forall>d. distanceFromInfinite this ev = Fin d \<longrightarrow>
      (fst (onScroll this ev) = 5 \<longleftrightarrow> d < 0) \<and>
      (fst (onScroll this ev) = 6 \<longleftrightarrow> 0 \<le> d) \<and>
      (domWrites (snd (onScroll this ev)) = (if d < 0 then domWrites this + 1 else domWrites this)))"
  by (simp add: onScroll_past_guards)

theorem onScroll_strictly_negative_witness:
  "past_guards (threshold_set (ngAfterContentInit constructor) ''100px'')
     \<lparr>timeStamp = Fin 1000, infiniteHeight = Fin 60, contentHeight = Fin 600,
      scrollHeight = Fin 2000, scrollTop = Fin 1240\<rparr> \<and>
   distanceFromInfinite (threshold_set (ngAfterContentInit constructor) ''100px'')
     \<lparr>timeStamp = Fin 1000, infiniteHeight = Fin 60, contentHeight = Fin 600,
      scrollHeight = Fin 2000, scrollTop = Fin 1240\<rparr> = Fin 0 \<and>
   fst (onScroll (threshold_set (ngAfterContentInit constructor) ''100px'')
     \<lparr>timeStamp = Fin 1000, infiniteHeight = Fin 60, contentHeight = Fin 600,
      scrollHeight = Fin 2000, scrollTop = Fin 1240\<rparr>) = 6 \<and>
   past_guards (threshold_set (ngAfterContentInit constructor) ''100px'')
     \<lparr>timeStamp = Fin 1000, infiniteHeight = Fin 60, contentHeight = Fin 600,
      scrollHeight = Fin 2000, scrollTop = Fin 1241\<rparr> \<and>
   distanceFromInfinite (threshold_set (ngAfterContentInit constructor) ''100px'')
     \<lparr>timeStamp = Fin 1000, infiniteHeight = Fin 60, contentHeight = Fin 600,
      scrollHeight = Fin 2000, scrollTop = Fin 1241\<rparr> = Fin (- 1) \<and>
   fst (onScroll (threshold_set (ngAfterContentInit constructor) ''100px'')
     \<lparr>timeStamp = Fin 1000, infiniteHeight = Fin 60, contentHeight = Fin 600,
      scrollHeight = Fin 2000, scrollTop = Fin 1241\<rparr>) = 5"
proof -
  let ?W = "threshold_set (ngAfterContentInit constructor) ''100px''"
  let ?E0 = "\<lparr>timeStamp = Fin 1000, infiniteHeight = Fin 60, contentHeight = Fin 600,
      scrollHeight = Fin 2000, scrollTop = Fin 1240\<rparr>"
  let ?E1 = "\<lparr>timeStamp = Fin 1000, infiniteHeight = Fin 60, contentHeight = Fin 600,
      scrollHeight = Fin 2000, scrollTop = Fin 1241\<rparr>"
  have p: "parseFloat ''100px'' = Fin 100"
    by code_simp
  have w: "?W = \<lparr>lastCheck = Fin 0, highestY = Fin 0, thr = ''100px'', thrPx = Fin 100,
      thrPc = Fin 0, init = True, state = STATE_ENABLED, scLsn = Some 0,
      ionScroll = [0], nextSub = 1, domWrites = 0, ionInfinite = 0\<rparr>"
    by (simp add: threshold_set_def ngAfterContentInit_def constructor_def setListeners_def p)
  have g0: "past_guards ?W ?E0" and g1: "past_guards ?W ?E1"
    by (simp_all add: w past_guards_def past_throttle_def js_gt_def)
  have d0: "distanceFromInfinite ?W ?E0 = Fin 0"
    by (simp add: w distanceFromInfinite_def reloadY_def js_sub_def)
  have d1: "distanceFromInfinite ?W ?E1 = Fin (- 1)"
    by (simp add: w distanceFromInfinite_def reloadY_def js_sub_def)
  from onScroll_strictly_negative [OF g0] onScroll_strictly_negative [OF g1] g0 g1 d0 d1
  show ?thesis
    by simp
qed

text \<open>
  C2, amended. The height that guards the sample is the scroll height of the
  component's own element (\<open>infiniteHeight\<close>), not the content height of the metrics:
  for every sample where \<open>infiniteHeight\<close> is 0 or \<open>NaN\<close>, \<open>_onScroll\<close> queues no
  write, whatever the content dimensions; past the state guard and the throttle it
  returns 3 and only \<open>_lastCheck\<close> has changed.
\<close>

theorem onScroll_no_element_height:
  "infiniteHeight ev = Fin 0 \<or> infiniteHeight ev = NaN \<Longrightarrow>
   fst (onScroll this ev) \<in> {1, 2, 3} \<and>
   domWrites (snd (onScroll this ev)) = domWrites this \<and>
   (past_throttle this ev \<longrightarrow> onScroll this ev = (3, this\<lparr>lastCheck := timeStamp ev\<rparr>)) \<and>
   domWrites (scrollEvent this ev) = domWrites this"
proof -
  assume a: "infiniteHeight ev = Fin 0 \<or> infiniteHeight ev = NaN"
  then have n: "\<not> truthy (infiniteHeight ev)"
    by auto
  then show ?thesis
    by (simp add: scrollEvent_def fold_onScroll_no_height) (simp add: onScroll_def Let_def past_throttle_def)
qed

theorem onScroll_no_element_height_witness:
  "(infiniteHeight \<lparr>timeStamp = Fin 1000, infiniteHeight = Fin 0, contentHeight = Fin 600,
      scrollHeight = Fin 600, scrollTop = Fin 0\<rparr> = Fin 0 \<or>
    infiniteHeight \<lparr>timeStamp = Fin 1000, infiniteHeight = Fin 0, contentHeight = Fin 600,
      scrollHeight = Fin 600, scrollTop = Fin 0\<rparr> = NaN) \<and>
   past_throttle (ngAfterContentInit constructor)
     \<lparr>timeStamp = Fin 1000, infiniteHeight = Fin 0, contentHeight = Fin 600,
      scrollHeight = Fin 600, scrollTop = Fin 0\<rparr> \<and>
   onScroll (ngAfterContentInit constructor)
     \<lparr>timeStamp = Fin 1000, infiniteHeight = Fin 0, contentHeight = Fin 600,
      scrollHeight = Fin 600, scrollTop = Fin 0\<rparr> =
   (3, ngAfterContentInit constructor\<lparr>lastCheck := Fin 1000\<rparr>) \<and>
   domWrites (scrollEvent (ngAfterContentInit constructor)
     \<lparr>timeStamp = Fin 1000, infiniteHeight = Fin 0, contentHeight = Fin 600,
      scrollHeight = Fin 600, scrollTop = Fin 0\<rparr>) = 0"
proof -
  let ?W = "ngAfterContentInit constructor"
  let ?E = "\<lparr>timeStamp = Fin 1000, infiniteHeight = Fin 0, contentHeight = Fin 600,
      scrollHeight = Fin 600, scrollTop = Fin 0\<rparr>"
  have h: "infiniteHeight ?E = Fin 0 \<or> infiniteHeight ?E = NaN"
    by simp
  have g: "past_throttle ?W ?E"
    by (simp add: ngAfterContentInit_def constructor_def setListeners_def past_throttle_def js_gt_def)
  have z: "domWrites ?W = 0"
    by (simp add: ngAfterContentInit_def constructor_def setListeners_def)
  from onScroll_no_element_height [OF h, of ?W] g z h show ?thesis
    by simp
qed

text \<open>
  C2 as stated fails: a sample whose metrics report the content height 0, with an
  element of height 60, passes the guards, has the distance \<open>(0 - 60 - 0) - 0 = -60\<close>
  and queues a write.
\<close>

theorem onScroll_zero_contentHeight_counterexample:
  "contentHeight \<lparr>timeStamp = Fin 1000, infiniteHeight = Fin 60, contentHeight = Fin 0,
      scrollHeight = Fin 0, scrollTop = Fin 0\<rparr> = Fin 0 \<and>
   onScroll (ngAfterContentInit constructor)
     \<lparr>timeStamp = Fin 1000, infiniteHeight = Fin 60, contentHeight = Fin 0,
      scrollHeight = Fin 0, scrollTop = Fin 0\<rparr> =
   (5, ngAfterContentInit constructor\<lparr>lastCheck := Fin 1000, domWrites := 1\<rparr>) \<and>
   domWrites (ngAfterContentInit constructor) = 0"
  by (simp add: ngAfterContentInit_def constructor_def setListeners_def onScroll_def
      distanceFromInfinite_def reloadY_def js_sub_def js_gt_def)




text \<open>
  C5, amended. When \<open>_onScroll\<close> queues a write (code 5), queueing changes neither the
  state nor the number of emitted events. The queued callback checks the state when it
  runs: in a state \<open>loading\<close> or \<open>disabled\<close> at that moment it changes nothing and
  emits nothing, otherwise it sets the state to \<open>loading\<close> and emits once; of two
  pending callbacks only the first emits. After \<open>enable(false)\<close> following the
  queueing, no number of write phases emits while the state stays \<open>disabled\<close>; when
  \<open>enable(true)\<close> or \<open>complete\<close> undoes the disable before the write phase, the
  callback finds the state \<open>enabled\<close> and emits.
\<close>

theorem writeCallback_rechecks_state:
  "fst (onScroll this ev) = 5 \<Longrightarrow>
   domWrites (snd (onScroll this ev)) = domWrites this + 1 \<and>
   state (snd (onScroll this ev)) = state this \<and>
   ionInfinite (snd (onScroll this ev)) = ionInfinite this \<and>
   (\<forall>later. 0 < domWrites later \<longrightarrow>
      ((state later = STATE_LOADING \<or> state later = STATE_DISABLED) \<longrightarrow>
         runWrite later = later\<lparr>domWrites := domWrites later - 1\<rparr>) \<and>
      (state later = STATE_ENABLED \<longrightarrow>
         runWrite later =
           later\<lparr>domWrites := domWrites later - 1, state := STATE_LOADING,
                 ionInfinite := ionInfinite later + 1\<rparr>) \<and>
      (state later = STATE_ENABLED \<and> 2 \<le> domWrites later \<longrightarrow>
         ionInfinite (runWrite (runWrite later)) = ionInfinite later + 1)) \<and>
   (\<forall>n. state ((runWrite ^^ n) (enable (snd (onScroll this ev)) False)) = STATE_DISABLED \<and>
        ionInfinite ((runWrite ^^ n) (enable (snd (onScroll this ev)) False)) =
          ionInfinite this) \<and>
   state (runWrite (enable (enable (snd (onScroll this ev)) False) True)) = STATE_LOADING \<and>
   ionInfinite (runWrite (enable (enable (snd (onScroll this ev)) False) True)) =
     ionInfinite this + 1 \<and>
   state (runWrite (complete (enable (snd (onScroll this ev)) False))) = STATE_LOADING \<and>
   ionInfinite (runWrite (complete (enable (snd (onScroll this ev)) False))) =
     ionInfinite this + 1"
proof -
  assume a: "fst (onScroll this ev) = 5"
  let ?s = "snd (onScroll this ev)"
  have q: "domWrites ?s = domWrites this + 1"
    using a by (simp add: onScroll_domWrites)
  have w: "\<forall>later. 0 < domWrites later \<longrightarrow>
      ((state later = STATE_LOADING \<or> state later = STATE_DISABLED) \<longrightarrow>
         runWrite later = later\<lparr>domWrites := domWrites later - 1\<rparr>) \<and>
      (state later = STATE_ENABLED \<longrightarrow>
         runWrite later =
           later\<lparr>domWrites := domWrites later - 1, state := STATE_LOADING,
                 ionInfinite := ionInfinite later + 1\<rparr>) \<and>
      (state later = STATE_ENABLED \<and> 2 \<le> domWrites later \<longrightarrow>
         ionInfinite (runWrite (runWrite later)) = ionInfinite later + 1)"
    by (auto simp add: runWrite_def writeCallback_def)
  have d: "state (enable ?s False) = STATE_DISABLED"
    by (simp add: enable_def setListeners_frame)
  have i: "ionInfinite (enable ?s False) = ionInfinite this"
    by (simp add: enable_def setListeners_frame onScroll_frame)
  from runWrite_disabled_funpow [OF d] i
  have f: "\<forall>n. state ((runWrite ^^ n) (enable ?s False)) = STATE_DISABLED \<and>
        ionInfinite ((runWrite ^^ n) (enable ?s False)) = ionInfinite this"
    by simp
  have e: "state (enable (enable ?s False) True) = STATE_ENABLED"
    "domWrites (enable (enable ?s False) True) = domWrites this + 1"
    "ionInfinite (enable (enable ?s False) True) = ionInfinite this"
    using q by (simp_all add: enable_def setListeners_frame onScroll_frame)
  have c: "state (complete (enable ?s False)) = STATE_ENABLED"
    "domWrites (complete (enable ?s False)) = domWrites this + 1"
    "ionInfinite (complete (enable ?s False)) = ionInfinite this"
    using q by (simp_all add: complete_def enable_def setListeners_frame onScroll_frame)
  have r: "state (runWrite (enable (enable ?s False) True)) = STATE_LOADING \<and>
      ionInfinite (runWrite (enable (enable ?s False) True)) = ionInfinite this + 1"
    using e by (simp add: runWrite_def writeCallback_def)
  have r': "state (runWrite (complete (enable ?s False))) = STATE_LOADING \<and>
      ionInfinite (runWrite (complete (enable ?s False))) = ionInfinite this + 1"
    using c by (simp add: runWrite_def writeCallback_def)
  have g: "state ?s = state this" "ionInfinite ?s = ionInfinite this"
    by (simp_all add: onScroll_frame)
  from q g w f r r' show ?thesis
    by blast
qed

theorem writeCallback_rechecks_state_witness:
  "fst (onScroll (ngAfterContentInit constructor)
     \<lparr>timeStamp = Fin 1000, infiniteHeight = Fin 1000, contentHeight = Fin 1000,
      scrollHeight = Fin 1200, scrollTop = Fin 200\<rparr>) = 5 \<and>
   state (runWrite (enable (snd (onScroll (ngAfterContentInit constructor)
     \<lparr>timeStamp = Fin 1000, infiniteHeight = Fin 1000, contentHeight = Fin 1000,
      scrollHeight = Fin 1200, scrollTop = Fin 200\<rparr>)) False)) = STATE_DISABLED \<and>
   ionInfinite (runWrite (enable (snd (onScroll (ngAfterContentInit constructor)
     \<lparr>timeStamp = Fin 1000, infiniteHeight = Fin 1000, contentHeight = Fin 1000,
      scrollHeight = Fin 1200, scrollTop = Fin 200\<rparr>)) False)) = 0 \<and>
   0 < domWrites (snd (onScroll (ngAfterContentInit constructor)
     \<lparr>timeStamp = Fin 1000, infiniteHeight = Fin 1000, contentHeight = Fin 1000,
      scrollHeight = Fin 1200, scrollTop = Fin 200\<rparr>)) \<and>
   state (snd (onScroll (ngAfterContentInit constructor)
     \<lparr>timeStamp = Fin 1000, infiniteHeight = Fin 1000, contentHeight = Fin 1000,
      scrollHeight = Fin 1200, scrollTop = Fin 200\<rparr>)) = STATE_ENABLED \<and>
   ionInfinite (runWrite (snd (onScroll (ngAfterContentInit constructor)
     \<lparr>timeStamp = Fin 1000, infiniteHeight = Fin 1000, contentHeight = Fin 1000,
      scrollHeight = Fin 1200, scrollTop = Fin 200\<rparr>))) = 1"
proof -
  let ?W = "ngAfterContentInit constructor"
  let ?E = "\<lparr>timeStamp = Fin 1000, infiniteHeight = Fin 1000, contentHeight = Fin 1000,
      scrollHeight = Fin 1200, scrollTop = Fin 200\<rparr>"
  have w: "?W = \<lparr>lastCheck = Fin 0, highestY = Fin 0, thr = ''15%'', thrPx = Fin 0,
      thrPc = js_round (15 / 100), init = True, state = STATE_ENABLED, scLsn = Some 0,
      ionScroll = [0], nextSub = 1, domWrites = 0, ionInfinite = 0\<rparr>"
    by (simp add: ngAfterContentInit_def constructor_def setListeners_def)
  have h: "fst (onScroll ?W ?E) = 5"
    by (simp add: w onScroll_def distanceFromInfinite_def reloadY_def js_sub_def js_gt_def)
  have s: "state ?W = STATE_ENABLED" "ionInfinite ?W = 0" "domWrites ?W = 0"
    by (simp_all add: w)
  note T = writeCallback_rechecks_state [OF h]
  from T have q: "domWrites (snd (onScroll ?W ?E)) = domWrites ?W + 1"
    and e: "state (snd (onScroll ?W ?E)) = state ?W"
    and i: "ionInfinite (snd (onScroll ?W ?E)) = ionInfinite ?W"
    by blast+
  from T have l: "0 < domWrites (snd (onScroll ?W ?E)) \<longrightarrow>
      (state (snd (onScroll ?W ?E)) = STATE_ENABLED \<longrightarrow>
         runWrite (snd (onScroll ?W ?E)) =
           (snd (onScroll ?W ?E))\<lparr>domWrites := domWrites (snd (onScroll ?W ?E)) - 1,
                 state := STATE_LOADING,
                 ionInfinite := ionInfinite (snd (onScroll ?W ?E)) + 1\<rparr>)"
    by blast
  from T have "state ((runWrite ^^ 1) (enable (snd (onScroll ?W ?E)) False)) = STATE_DISABLED \<and>
        ionInfinite ((runWrite ^^ 1) (enable (snd (onScroll ?W ?E)) False)) = ionInfinite ?W"
    by blast
  then have n: "state (runWrite (enable (snd (onScroll ?W ?E)) False)) = STATE_DISABLED \<and>
        ionInfinite (runWrite (enable (snd (onScroll ?W ?E)) False)) = 0"
    by (simp add: s)
  from q s have p: "0 < domWrites (snd (onScroll ?W ?E))"
    by simp
  from e s have e': "state (snd (onScroll ?W ?E)) = STATE_ENABLED"
    by simp
  from l p e' i s have "ionInfinite (runWrite (snd (onScroll ?W ?E))) = 1"
    by simp
  with h n p e' show ?thesis
    by simp
qed

text \<open>
  C5 as stated fails when the disable is undone before the write phase: after
  \<open>ngAfterContentInit\<close>, a scroll sample that crosses the threshold queues the
  callback, \<open>enable(false)\<close> sets the state to \<open>disabled\<close>, \<open>enable(true)\<close> sets it
  back, and the write phase then emits the notification queued before the disable.
\<close>

theorem writeCallback_reenabled_counterexample:
  "fst (onScroll (ngAfterContentInit constructor)
     \<lparr>timeStamp = Fin 1000, infiniteHeight = Fin 1000, contentHeight = Fin 1000,
      scrollHeight = Fin 1200, scrollTop = Fin 200\<rparr>) = 5 \<and>
   state (enable (snd (onScroll (ngAfterContentInit constructor)
     \<lparr>timeStamp = Fin 1000, infiniteHeight = Fin 1000, contentHeight = Fin 1000,
      scrollHeight = Fin 1200, scrollTop = Fin 200\<rparr>)) False) = STATE_DISABLED \<and>
   ionInfinite (enable (enable (snd (onScroll (ngAfterContentInit constructor)
     \<lparr>timeStamp = Fin 1000, infiniteHeight = Fin 1000, contentHeight = Fin 1000,
      scrollHeight = Fin 1200, scrollTop = Fin 200\<rparr>)) False) True) = 0 \<and>
   ionInfinite (runWrite (enable (enable (snd (onScroll (ngAfterContentInit constructor)
     \<lparr>timeStamp = Fin 1000, infiniteHeight = Fin 1000, contentHeight = Fin 1000,
      scrollHeight = Fin 1200, scrollTop = Fin 200\<rparr>)) False) True)) = 1"
  by (simp add: ngAfterContentInit_def constructor_def setListeners_def onScroll_def
      distanceFromInfinite_def reloadY_def js_sub_def js_gt_def enable_def runWrite_def
      writeCallback_def)

text \<open>
  C6. For every threshold string with a \<open>%\<close>, the setter clears \<open>_thrPx\<close> to 0 and
  stores the parsed number divided by 100 in \<open>_thrPc\<close>, and where the string parses to
  a number, \<open>reloadY\<close> of a finite content height \<open>c\<close> is \<open>c + c * (N / 100)\<close> as
  the doubles compute it, each operation rounded; this includes the strings whose
  fraction is 0, where \<open>_onScroll\<close> takes the pixel branch with 0 pixels and gets the
  same number. For every string without a \<open>%\<close>, the setter clears \<open>_thrPc\<close> to 0 and
  stores the parsed number in \<open>_thrPx\<close>, and \<open>reloadY\<close> is the content height plus
  that number. In every state the instance can reach from its constructor, one of the
  two fields is 0, so \<open>reloadY\<close> adds one of the two thresholds and never both.
\<close>

theorem threshold_set_modes:
  "(CHR ''%'' \<in> set val \<longrightarrow>
      thrPx (threshold_set this val) = Fin 0 \<and>
      thrPc (threshold_set this val) = js_div (parseFloat val) (Fin 100) \<and>
      (\<forall>c. parseFloat val \<noteq> NaN \<and> contentHeight ev = Fin c \<longrightarrow>
         reloadY (threshold_set this val) ev =
           js_add (Fin c) (js_mul (Fin c) (js_div (parseFloat val) (Fin 100))))) \<and>
   (CHR ''%'' \<notin> set val \<longrightarrow>
      thrPc (threshold_set this val) = Fin 0 \<and>
      thrPx (threshold_set this val) = parseFloat val \<and>
      reloadY (threshold_set this val) ev = js_add (contentHeight ev) (parseFloat val)) \<and>
   (thrPx (run constructor acts) = Fin 0 \<or> thrPc (run constructor acts) = Fin 0) \<and>
   (reloadY (run constructor acts) ev =
      js_add (contentHeight ev) (js_mul (contentHeight ev) (thrPc (run constructor acts))) \<and>
      truthy (thrPc (run constructor acts)) \<and> thrPx (run constructor acts) = Fin 0 \<or>
    reloadY (run constructor acts) ev =
      js_add (contentHeight ev) (thrPx (run constructor acts)) \<and>
      \<not> truthy (thrPc (run constructor acts)))"
proof (intro conjI impI allI)
  assume "CHR ''%'' \<in> set val"
  then show "thrPx (threshold_set this val) = Fin 0"
    and "thrPc (threshold_set this val) = js_div (parseFloat val) (Fin 100)"
    by (simp_all add: threshold_set_def)
next
  fix c
  assume m: "CHR ''%'' \<in> set val" and p: "parseFloat val \<noteq> NaN \<and> contentHeight ev = Fin c"
  let ?p = "js_div (parseFloat val) (Fin 100)"
  from m have f: "thrPx (threshold_set this val) = Fin 0" "thrPc (threshold_set this val) = ?p"
    by (simp_all add: threshold_set_def)
  show "reloadY (threshold_set this val) ev = js_add (Fin c) (js_mul (Fin c) ?p)"
  proof (cases "truthy ?p")
    case True
    with f p show ?thesis
      by (simp add: reloadY_def)
  next
    case False
    from p have "?p \<noteq> NaN"
      by (simp add: js_div_100_NaN)
    with False have z: "?p = Fin 0"
      by (cases ?p) simp_all
    from f p show ?thesis
      by (simp add: reloadY_def z)
  qed
next
  assume "CHR ''%'' \<notin> set val"
  then show "thrPc (threshold_set this val) = Fin 0"
    and "thrPx (threshold_set this val) = parseFloat val"
    and "reloadY (threshold_set this val) ev = js_add (contentHeight ev) (parseFloat val)"
    by (simp_all add: threshold_set_def reloadY_def)
next
  have c: "thrPx constructor = Fin 0 \<or> thrPc constructor = Fin 0"
    by (simp add: constructor_def)
  from run_one_cleared [OF c]
  show o: "thrPx (run constructor acts) = Fin 0 \<or> thrPc (run constructor acts) = Fin 0" .
  then show "reloadY (run constructor acts) ev =
      js_add (contentHeight ev) (js_mul (contentHeight ev) (thrPc (run constructor acts))) \<and>
      truthy (thrPc (run constructor acts)) \<and> thrPx (run constructor acts) = Fin 0 \<or>
    reloadY (run constructor acts) ev =
      js_add (contentHeight ev) (thrPx (run constructor acts)) \<and>
      \<not> truthy (thrPc (run constructor acts))"
    by (auto simp add: reloadY_def)
qed

theorem threshold_set_modes_witness:
  "CHR ''%'' \<in> set ''15%'' \<and> parseFloat ''15%'' \<noteq> NaN \<and>
   thrPx (threshold_set (threshold_set constructor ''100px'') ''15%'') = Fin 0 \<and>
   thrPc (threshold_set (threshold_set constructor ''100px'') ''15%'') =
     Fin (5404319552844595 / 36028797018963968) \<and>
   reloadY (threshold_set (threshold_set constructor ''100px'') ''15%'')
     \<lparr>timeStamp = Fin 1000, infiniteHeight = Fin 1000, contentHeight = Fin 1000,
      scrollHeight = Fin 1200, scrollTop = Fin 200\<rparr> = Fin 1150 \<and>
   CHR ''%'' \<in> set ''222%'' \<and> parseFloat ''222%'' \<noteq> NaN \<and>
   reloadY (threshold_set constructor ''222%'')
     \<lparr>timeStamp = Fin 1000, infiniteHeight = Fin 60, contentHeight = Fin 600,
      scrollHeight = Fin 2000, scrollTop = Fin 8\<rparr> =
     Fin (8497025859452929 / 4398046511104) \<and>
   CHR ''%'' \<notin> set ''100px'' \<and>
   thrPc (threshold_set constructor ''100px'') = Fin 0 \<and>
   thrPx (threshold_set constructor ''100px'') = Fin 100 \<and>
   reloadY (threshold_set constructor ''100px'')
     \<lparr>timeStamp = Fin 1000, infiniteHeight = Fin 1000, contentHeight = Fin 1000,
      scrollHeight = Fin 1200, scrollTop = Fin 200\<rparr> = Fin 1100"
proof -
  let ?E = "\<lparr>timeStamp = Fin 1000, infiniteHeight = Fin 1000, contentHeight = Fin 1000,
      scrollHeight = Fin 1200, scrollTop = Fin 200\<rparr>"
  let ?F = "\<lparr>timeStamp = Fin 1000, infiniteHeight = Fin 60, contentHeight = Fin 600,
      scrollHeight = Fin 2000, scrollTop = Fin 8\<rparr>"
  have p: "parseFloat ''100px'' = Fin 100" and p2: "parseFloat ''222%'' = Fin 222"
    by code_simp+
  have m1: "CHR ''%'' \<in> set ''15%''" and m2: "CHR ''%'' \<notin> set ''100px''"
    and m3: "CHR ''%'' \<in> set ''222%''"
    by simp_all
  have c: "parseFloat ''15%'' \<noteq> NaN \<and> contentHeight ?E = Fin 1000"
    by (simp add: parseFloat_15)
  have c2: "parseFloat ''222%'' \<noteq> NaN \<and> contentHeight ?F = Fin 600"
    by (simp add: p2)
  have v: "js_add (Fin 600) (js_mul (Fin 600) (js_div (Fin 222) (Fin 100))) =
      Fin (8497025859452929 / 4398046511104)"
    by code_simp
  note T1 = threshold_set_modes [of "''15%''" "threshold_set constructor ''100px''" ?E "[]"]
  note T2 = threshold_set_modes [of "''100px''" constructor ?E "[]"]
  note T3 = threshold_set_modes [of "''222%''" constructor ?F "[]"]
  from T1 [THEN conjunct1, THEN mp, OF m1] c
  have a: "thrPx (threshold_set (threshold_set constructor ''100px'') ''15%'') = Fin 0 \<and>
     thrPc (threshold_set (threshold_set constructor ''100px'') ''15%'') =
       Fin (5404319552844595 / 36028797018963968) \<and>
     reloadY (threshold_set (threshold_set constructor ''100px'') ''15%'') ?E = Fin 1150"
    by (simp add: parseFloat_15 default_thrPc_value [symmetric])
  from T3 [THEN conjunct1, THEN mp, OF m3] c2
  have "reloadY (threshold_set constructor ''222%'') ?F =
      js_add (Fin 600) (js_mul (Fin 600) (js_div (parseFloat ''222%'') (Fin 100)))"
    by blast
  then have b3: "reloadY (threshold_set constructor ''222%'') ?F =
      Fin (8497025859452929 / 4398046511104)"
    by (simp only: p2 v)
  from T2 [THEN conjunct2, THEN conjunct1, THEN mp, OF m2]
  have b: "thrPc (threshold_set constructor ''100px'') = Fin 0 \<and>
     thrPx (threshold_set constructor ''100px'') = Fin 100 \<and>
     reloadY (threshold_set constructor ''100px'') ?E = Fin 1100"
    by (simp add: p)
  from a b b3 m1 m2 m3 c c2 show ?thesis
    by simp
qed

text \<open>
  C7, amended. The throttle is measured from \<open>_lastCheck\<close>, the time stamp of the
  last processed sample, with the sum \<open>_lastCheck + 32\<close> computed in doubles. A sample
  that passes the state guard and the throttle sets \<open>_lastCheck\<close> to its own time
  stamp, and a sample stopped by one of the two changes nothing. When the first of two
  samples is processed and the time stamp of the second is below the sum the code
  computes from the time stamp of the first, the second is stopped by the throttle: the
  call returns 2 and leaves the instance as it was, and the same holds in every later
  state of the instance in which \<open>_lastCheck\<close> is still the time stamp of the first
  sample, where the call returns 1 or 2. For time stamps that are whole milliseconds,
  the sum is exact and the second sample is stopped whenever it is less than 32 after
  the first.
\<close>

theorem onScroll_throttle:
  "(fst (onScroll this ev1) \<notin> {1, 2} \<longrightarrow>
      lastCheck (snd (onScroll this ev1)) = timeStamp ev1) \<and>
   (fst (onScroll this ev1) \<in> {1, 2} \<longrightarrow> snd (onScroll this ev1) = this) \<and>
   (fst (onScroll this ev1) \<notin> {1, 2} \<and>
    js_gt (js_add (timeStamp ev1) (Fin 32)) (timeStamp ev2) \<longrightarrow>
      onScroll (snd (onScroll this ev1)) ev2 = (2, snd (onScroll this ev1)) \<and>
      (\<forall>later. lastCheck later = timeStamp ev1 \<longrightarrow>
         fst (onScroll later ev2) \<in> {1, 2} \<and> snd (onScroll later ev2) = later)) \<and>
   (fst (onScroll this ev1) \<notin> {1, 2} \<and>
    timeStamp ev1 = Fin (of_int k1) \<and> timeStamp ev2 = Fin (of_int k2) \<and>
    \<bar>k1 + 32\<bar> < 2 ^ 53 \<and> k2 - k1 < 32 \<longrightarrow>
      onScroll (snd (onScroll this ev1)) ev2 = (2, snd (onScroll this ev1)) \<and>
      (\<forall>later. lastCheck later = timeStamp ev1 \<longrightarrow>
         fst (onScroll later ev2) \<in> {1, 2} \<and> snd (onScroll later ev2) = later))"
proof -
  have p1: "fst (onScroll this ev1) \<notin> {1, 2} \<longrightarrow>
      lastCheck (snd (onScroll this ev1)) = timeStamp ev1"
    by (simp add: onScroll_def Let_def split: if_splits)
  have p2: "fst (onScroll this ev1) \<in> {1, 2} \<longrightarrow> snd (onScroll this ev1) = this"
    by (auto simp add: onScroll_def Let_def split: if_splits)
  have p3: "onScroll (snd (onScroll this ev1)) ev2 = (2, snd (onScroll this ev1)) \<and>
      (\<forall>later. lastCheck later = timeStamp ev1 \<longrightarrow>
         fst (onScroll later ev2) \<in> {1, 2} \<and> snd (onScroll later ev2) = later)"
    if a: "fst (onScroll this ev1) \<notin> {1, 2}"
      and g: "js_gt (js_add (timeStamp ev1) (Fin 32)) (timeStamp ev2)"
  proof -
    from a p1 have l: "lastCheck (snd (onScroll this ev1)) = timeStamp ev1"
      by blast
    from a have s: "state this \<noteq> STATE_LOADING \<and> state this \<noteq> STATE_DISABLED"
      by (auto simp add: onScroll_def Let_def split: if_splits)
    from l s g have "onScroll (snd (onScroll this ev1)) ev2 = (2, snd (onScroll this ev1))"
      by (simp add: onScroll_def [of "snd (onScroll this ev1)"] onScroll_frame)
    moreover from g have "\<forall>later. lastCheck later = timeStamp ev1 \<longrightarrow>
         fst (onScroll later ev2) \<in> {1, 2} \<and> snd (onScroll later ev2) = later"
      by (simp add: onScroll_def)
    ultimately show ?thesis
      by blast
  qed
  have p4: "js_gt (js_add (timeStamp ev1) (Fin 32)) (timeStamp ev2)"
    if "timeStamp ev1 = Fin (of_int k1)" "timeStamp ev2 = Fin (of_int k2)"
      and b: "\<bar>k1 + 32\<bar> < 2 ^ 53" and "k2 - k1 < 32"
  proof -
    from js_add_of_int [OF b] have "js_add (Fin (of_int k1)) (Fin 32) = Fin (of_int (k1 + 32))"
      by simp
    with that show ?thesis
      by (simp add: js_gt_def del: js_add.simps)
  qed
  from p1 p2 p3 p4 show ?thesis
    by blast
qed

theorem onScroll_throttle_witness:
  "fst (onScroll (ngAfterContentInit constructor)
     \<lparr>timeStamp = Fin 1000, infiniteHeight = Fin 60, contentHeight = Fin 600,
      scrollHeight = Fin 2000, scrollTop = Fin 100\<rparr>) \<notin> {1, 2} \<and>
   timeStamp \<lparr>timeStamp = Fin 1000, infiniteHeight = Fin 60, contentHeight = Fin 600,
      scrollHeight = Fin 2000, scrollTop = Fin 100\<rparr> = Fin (of_int 1000) \<and>
   timeStamp \<lparr>timeStamp = Fin 1031, infiniteHeight = Fin 60, contentHeight = Fin 600,
      scrollHeight = Fin 2000, scrollTop = Fin 1400\<rparr> = Fin (of_int 1031) \<and>
   \<bar>1000 + 32 :: int\<bar> < 2 ^ 53 \<and> (1031::int) - 1000 < 32 \<and>
   js_gt (js_add (Fin 1000) (Fin 32)) (Fin 1031) \<and>
   lastCheck (snd (onScroll (ngAfterContentInit constructor)
     \<lparr>timeStamp = Fin 1000, infiniteHeight = Fin 60, contentHeight = Fin 600,
      scrollHeight = Fin 2000, scrollTop = Fin 100\<rparr>)) = Fin 1000 \<and>
   onScroll (snd (onScroll (ngAfterContentInit constructor)
     \<lparr>timeStamp = Fin 1000, infiniteHeight = Fin 60, contentHeight = Fin 600,
      scrollHeight = Fin 2000, scrollTop = Fin 100\<rparr>))
     \<lparr>timeStamp = Fin 1031, infiniteHeight = Fin 60, contentHeight = Fin 600,
      scrollHeight = Fin 2000, scrollTop = Fin 1400\<rparr> =
   (2, snd (onScroll (ngAfterContentInit constructor)
     \<lparr>timeStamp = Fin 1000, infiniteHeight = Fin 60, contentHeight = Fin 600,
      scrollHeight = Fin 2000, scrollTop = Fin 100\<rparr>))"
proof -
  let ?W = "ngAfterContentInit constructor"
  let ?E1 = "\<lparr>timeStamp = Fin 1000, infiniteHeight = Fin 60, contentHeight = Fin 600,
      scrollHeight = Fin 2000, scrollTop = Fin 100\<rparr>"
  let ?E2 = "\<lparr>timeStamp = Fin 1031, infiniteHeight = Fin 60, contentHeight = Fin 600,
      scrollHeight = Fin 2000, scrollTop = Fin 1400\<rparr>"
  have f: "fst (onScroll ?W ?E1) \<notin> {1, 2}"
    by (simp add: ngAfterContentInit_def constructor_def setListeners_def onScroll_def
        distanceFromInfinite_def reloadY_def js_sub_def js_gt_def)
  have g: "js_gt (js_add (Fin 1000) (Fin 32)) (Fin 1031)"
    by (simp add: js_gt_def)
  have h: "fst (onScroll ?W ?E1) \<notin> {1, 2} \<and>
    timeStamp ?E1 = Fin (of_int 1000) \<and> timeStamp ?E2 = Fin (of_int 1031) \<and>
    \<bar>1000 + 32 :: int\<bar> < 2 ^ 53 \<and> (1031::int) - 1000 < 32"
    using f by simp
  have h': "fst (onScroll ?W ?E1) \<notin> {1, 2} \<and>
    js_gt (js_add (timeStamp ?E1) (Fin 32)) (timeStamp ?E2)"
    using f g by simp
  note T = onScroll_throttle [of ?W ?E1 ?E2 1000 1031]
  from T [THEN conjunct1, THEN mp, OF f]
  have a: "lastCheck (snd (onScroll ?W ?E1)) = Fin 1000"
    by simp
  from T [THEN conjunct2, THEN conjunct2, THEN conjunct2, THEN mp, OF h]
  have b: "onScroll (snd (onScroll ?W ?E1)) ?E2 = (2, snd (onScroll ?W ?E1))"
    by blast
  from T [THEN conjunct2, THEN conjunct2, THEN conjunct1, THEN mp, OF h']
  have b': "onScroll (snd (onScroll ?W ?E1)) ?E2 = (2, snd (onScroll ?W ?E1))"
    by blast
  from a b h g show ?thesis
    by simp
qed

text \<open>
  C7 as stated fails in two ways. On a fresh instance, samples at 31 and 32 are 1
  apart: the first is stopped by the throttle (\<open>0 + 32 > 31\<close>) and the second is
  processed and sets \<open>_lastCheck\<close> to 32. And with the doubles nearest to 1000.004 and
  1032.004, which are less than 32 apart, the first sample is processed, the sum
  \<open>_lastCheck + 32\<close> rounds to the time stamp of the second, the test \<open>>\<close> is false and
  the second sample is processed too.
\<close>

theorem onScroll_throttle_counterexample:
  "(32 - 31 :: rat) < 32 \<and>
   onScroll (ngAfterContentInit constructor)
     \<lparr>timeStamp = Fin 31, infiniteHeight = Fin 60, contentHeight = Fin 600,
      scrollHeight = Fin 2000, scrollTop = Fin 100\<rparr> = (2, ngAfterContentInit constructor) \<and>
   onScroll (ngAfterContentInit constructor)
     \<lparr>timeStamp = Fin 32, infiniteHeight = Fin 60, contentHeight = Fin 600,
      scrollHeight = Fin 2000, scrollTop = Fin 100\<rparr> =
     (6, ngAfterContentInit constructor\<lparr>lastCheck := Fin 32\<rparr>) \<and>
   js_round (1000004 / 1000) = Fin (8796128206580089 / 8796093022208) \<and>
   js_round (1032004 / 1000) = Fin (1134700397911343 / 1099511627776) \<and>
   (1134700397911343 / 1099511627776 - 8796128206580089 / 8796093022208 :: rat) < 32 \<and>
   fst (onScroll (ngAfterContentInit constructor)
     \<lparr>timeStamp = Fin (8796128206580089 / 8796093022208), infiniteHeight = Fin 60,
      contentHeight = Fin 600, scrollHeight = Fin 2000, scrollTop = Fin 100\<rparr>) = 6 \<and>
   fst (onScroll (snd (onScroll (ngAfterContentInit constructor)
     \<lparr>timeStamp = Fin (8796128206580089 / 8796093022208), infiniteHeight = Fin 60,
      contentHeight = Fin 600, scrollHeight = Fin 2000, scrollTop = Fin 100\<rparr>))
     \<lparr>timeStamp = Fin (1134700397911343 / 1099511627776), infiniteHeight = Fin 60,
      contentHeight = Fin 600, scrollHeight = Fin 2000, scrollTop = Fin 100\<rparr>) = 6"
  by code_simp

text \<open>
  C9. Setting \<open>enabled\<close> to true twice gives the instance that setting it once gives,
  in every state. In every state the instance can reach from its constructor, the
  content has at most one subscription of the component after the two calls, the state
  is \<open>enabled\<close>, and after \<open>ngAfterContentInit\<close> the subscription stored in \<open>_scLsn\<close>
  is the only one.
\<close>

theorem enabled_set_idempotent:
  "enabled_set (enabled_set this True) True = enabled_set this True \<and>
   state (enabled_set (enabled_set this True) True) = STATE_ENABLED \<and>
   length (ionScroll (enabled_set (enabled_set (run constructor acts) True) True)) \<le> 1 \<and>
   (init (run constructor acts) \<longrightarrow>
      (\<exists>h. scLsn (enabled_set (enabled_set (run constructor acts) True) True) = Some h \<and>
           ionScroll (enabled_set (enabled_set (run constructor acts) True) True) = [h]))"
proof (intro conjI impI)
  show i: "enabled_set (enabled_set this True) True = enabled_set this True"
    by (simp add: enabled_set_def enable_True_idem)
  show "state (enabled_set (enabled_set this True) True) = STATE_ENABLED"
    by (simp add: enabled_set_def enable_def setListeners_frame)
  have r: "subscription_inv (run constructor acts)"
    by (rule reachable_inv)
  from subscription_inv_length [OF enable_inv [OF r, of True]]
  show "length (ionScroll (enabled_set (enabled_set (run constructor acts) True) True)) \<le> 1"
    by (simp add: enabled_set_def enable_True_idem)
  assume "init (run constructor acts)"
  from enable_True_subscribed [OF r this]
  show "\<exists>h. scLsn (enabled_set (enabled_set (run constructor acts) True) True) = Some h \<and>
           ionScroll (enabled_set (enabled_set (run constructor acts) True) True) = [h]"
    by (simp add: enabled_set_def enable_True_idem)
qed

theorem enabled_set_idempotent_witness:
  "init (run constructor [AfterContentInit]) \<and>
   state (run constructor [AfterContentInit]) = STATE_ENABLED \<and>
   enabled_set (enabled_set (run constructor [AfterContentInit]) True) True =
     enabled_set (run constructor [AfterContentInit]) True \<and>
   ionScroll (enabled_set (enabled_set (run constructor [AfterContentInit]) True) True) = [0]"
proof -
  let ?W = "run constructor [AfterContentInit]"
  have w: "?W = \<lparr>lastCheck = Fin 0, highestY = Fin 0, thr = ''15%'', thrPx = Fin 0,
      thrPc = js_round (15 / 100), init = True, state = STATE_ENABLED, scLsn = Some 0,
      ionScroll = [0], nextSub = 1, domWrites = 0, ionInfinite = 0\<rparr>"
    by (simp add: run_def ngAfterContentInit_def constructor_def setListeners_def)
  have i: "init ?W" and s: "state ?W = STATE_ENABLED"
    by (simp_all add: w)
  note T = enabled_set_idempotent [of ?W "[AfterContentInit]"]
  from T have a: "enabled_set (enabled_set ?W True) True = enabled_set ?W True"
    by blast
  from T i have "\<exists>h. scLsn (enabled_set (enabled_set ?W True) True) = Some h \<and>
           ionScroll (enabled_set (enabled_set ?W True) True) = [h]"
    by blast
  moreover have "scLsn (enabled_set ?W True) = Some 0"
    by (simp add: w enabled_set_def enable_def setListeners_def)
  ultimately have "ionScroll (enabled_set (enabled_set ?W True) True) = [0]"
    using a by auto
  with i s a show ?thesis
    by simp
qed

text \<open>
  C10, amended. \<open>complete\<close> sets the state to \<open>enabled\<close> from every state and
  changes no other field: not the subscription, not the threshold fields, not
  \<open>_lastCheck\<close>. In every state the instance can reach from its constructor, after
  \<open>enabled = false\<close> and then \<open>complete\<close> the state is \<open>enabled\<close>, no subscription
  is stored and the content has none, so no scroll event reaches \<open>_onScroll\<close>: every
  sequence of scroll events leaves the instance as it is and queues nothing. When no
  write was pending, every sequence of scroll events and write phases leaves the
  instance as it is; a write that was queued before the two calls still runs, finds the
  state \<open>enabled\<close>, sets it to \<open>loading\<close> and emits.
\<close>

theorem complete_after_disable:
  "complete this = this\<lparr>state := STATE_ENABLED\<rparr> \<and>
   state (complete this) = STATE_ENABLED \<and>
   scLsn (complete this) = scLsn this \<and> ionScroll (complete this) = ionScroll this \<and>
   thr (complete this) = thr this \<and> thrPx (complete this) = thrPx this \<and>
   thrPc (complete this) = thrPc this \<and> lastCheck (complete this) = lastCheck this \<and>
   init (complete this) = init this \<and>
   state (complete (enabled_set (run constructor acts) False)) = STATE_ENABLED \<and>
   scLsn (complete (enabled_set (run constructor acts) False)) = None \<and>
   ionScroll (complete (enabled_set (run constructor acts) False)) = [] \<and>
   scrollEvent (complete (enabled_set (run constructor acts) False)) ev =
     complete (enabled_set (run constructor acts) False) \<and>
   run (complete (enabled_set (run constructor acts) False)) (map Scroll evs) =
     complete (enabled_set (run constructor acts) False) \<and>
   (domWrites (run constructor acts) = 0 \<and> list_all environment_action es \<longrightarrow>
      run (complete (enabled_set (run constructor acts) False)) es =
        complete (enabled_set (run constructor acts) False)) \<and>
   (0 < domWrites (run constructor acts) \<longrightarrow>
      runWrite (complete (enabled_set (run constructor acts) False)) =
        (complete (enabled_set (run constructor acts) False))
          \<lparr>domWrites := domWrites (run constructor acts) - 1, state := STATE_LOADING,
           ionInfinite := ionInfinite (run constructor acts) + 1\<rparr>)"
proof -
  let ?w = "complete (enabled_set (run constructor acts) False)"
  have r: "subscription_inv (run constructor acts)"
    by (rule reachable_inv)
  note u = enable_False_unsubscribed [OF r]
  have f: "complete this = this\<lparr>state := STATE_ENABLED\<rparr> \<and>
   state (complete this) = STATE_ENABLED \<and>
   scLsn (complete this) = scLsn this \<and> ionScroll (complete this) = ionScroll this \<and>
   thr (complete this) = thr this \<and> thrPx (complete this) = thrPx this \<and>
   thrPc (complete this) = thrPc this \<and> lastCheck (complete this) = lastCheck this \<and>
   init (complete this) = init this"
    by (simp add: complete_def)
  have s: "state ?w = STATE_ENABLED" and n: "scLsn ?w = None" and e: "ionScroll ?w = []"
    using u by (simp_all add: complete_def enabled_set_def)
  have d: "domWrites ?w = domWrites (run constructor acts)"
    and j: "ionInfinite ?w = ionInfinite (run constructor acts)"
    by (simp_all add: complete_def enabled_set_def enable_def setListeners_frame)
  have v: "scrollEvent ?w ev = ?w"
    using e by (simp add: scrollEvent_def)
  have m: "run ?w (map Scroll evs) = ?w"
    by (rule run_scrolls_unsubscribed [OF e])
  have i: "domWrites (run constructor acts) = 0 \<and> list_all environment_action es \<longrightarrow>
      run ?w es = ?w"
    using run_environment_idle [OF e, of es] d by simp
  have p: "0 < domWrites (run constructor acts) \<longrightarrow>
      runWrite ?w = ?w\<lparr>domWrites := domWrites (run constructor acts) - 1,
        state := STATE_LOADING, ionInfinite := ionInfinite (run constructor acts) + 1\<rparr>"
    using s d j by (simp add: runWrite_def writeCallback_def)
  from f s n e v m i p show ?thesis
    by blast
qed

theorem complete_after_disable_witness:
  "domWrites (run constructor [AfterContentInit]) = 0 \<and>
   list_all environment_action
     [Scroll \<lparr>timeStamp = Fin 1000, infiniteHeight = Fin 1000, contentHeight = Fin 1000,
        scrollHeight = Fin 1200, scrollTop = Fin 200\<rparr>, WritePhase] \<and>
   state (complete (enabled_set (run constructor [AfterContentInit]) False)) = STATE_ENABLED \<and>
   ionScroll (complete (enabled_set (run constructor [AfterContentInit]) False)) = [] \<and>
   run (complete (enabled_set (run constructor [AfterContentInit]) False))
     [Scroll \<lparr>timeStamp = Fin 1000, infiniteHeight = Fin 1000, contentHeight = Fin 1000,
        scrollHeight = Fin 1200, scrollTop = Fin 200\<rparr>, WritePhase] =
   complete (enabled_set (run constructor [AfterContentInit]) False) \<and>
   0 < domWrites (run constructor
     [AfterContentInit, Scroll \<lparr>timeStamp = Fin 1000, infiniteHeight = Fin 1000,
        contentHeight = Fin 1000, scrollHeight = Fin 1200, scrollTop = Fin 200\<rparr>]) \<and>
   state (runWrite (complete (enabled_set (run constructor
     [AfterContentInit, Scroll \<lparr>timeStamp = Fin 1000, infiniteHeight = Fin 1000,
        contentHeight = Fin 1000, scrollHeight = Fin 1200, scrollTop = Fin 200\<rparr>]) False))) =
     STATE_LOADING"
proof -
  let ?E = "\<lparr>timeStamp = Fin 1000, infiniteHeight = Fin 1000, contentHeight = Fin 1000,
        scrollHeight = Fin 1200, scrollTop = Fin 200\<rparr>"
  have h: "domWrites (run constructor [AfterContentInit]) = 0 \<and>
     list_all environment_action [Scroll ?E, WritePhase]"
    by (simp add: run_def ngAfterContentInit_def constructor_def setListeners_def)
  have g: "0 < domWrites (run constructor [AfterContentInit, Scroll ?E])"
    by (simp add: run_def ngAfterContentInit_def constructor_def setListeners_def
        scrollEvent_def onScroll_def distanceFromInfinite_def reloadY_def js_sub_def js_gt_def)
  note T = complete_after_disable [of constructor "[AfterContentInit]" ?E "[]" "[Scroll ?E, WritePhase]"]
  note U = complete_after_disable [of constructor "[AfterContentInit, Scroll ?E]" ?E "[]" "[]"]
  from U g have "runWrite (complete (enabled_set (run constructor [AfterContentInit, Scroll ?E]) False)) =
        (complete (enabled_set (run constructor [AfterContentInit, Scroll ?E]) False))
          \<lparr>domWrites := domWrites (run constructor [AfterContentInit, Scroll ?E]) - 1,
           state := STATE_LOADING,
           ionInfinite := ionInfinite (run constructor [AfterContentInit, Scroll ?E]) + 1\<rparr>"
    by blast
  then have l: "state (runWrite (complete (enabled_set (run constructor
      [AfterContentInit, Scroll ?E]) False))) = STATE_LOADING"
    by simp
  from T h g l show ?thesis
    by blast
qed

text \<open>
  C10 as stated fails where a write is pending: after \<open>ngAfterContentInit\<close> and a scroll
  sample that crosses the threshold, \<open>enabled = false\<close> followed by \<open>complete\<close>
  leaves the state \<open>enabled\<close> with no subscription and nothing emitted so far, and the
  write phase then emits.
\<close>

theorem complete_after_disable_pending_counterexample:
  "state (complete (enabled_set (run constructor
     [AfterContentInit, Scroll \<lparr>timeStamp = Fin 1000, infiniteHeight = Fin 1000,
        contentHeight = Fin 1000, scrollHeight = Fin 1200, scrollTop = Fin 200\<rparr>]) False)) =
     STATE_ENABLED \<and>
   ionScroll (complete (enabled_set (run constructor
     [AfterContentInit, Scroll \<lparr>timeStamp = Fin 1000, infiniteHeight = Fin 1000,
        contentHeight = Fin 1000, scrollHeight = Fin 1200, scrollTop = Fin 200\<rparr>]) False)) = [] \<and>
   ionInfinite (complete (enabled_set (run constructor
     [AfterContentInit, Scroll \<lparr>timeStamp = Fin 1000, infiniteHeight = Fin 1000,
        contentHeight = Fin 1000, scrollHeight = Fin 1200, scrollTop = Fin 200\<rparr>]) False)) = 0 \<and>
   ionInfinite (runWrite (complete (enabled_set (run constructor
     [AfterContentInit, Scroll \<lparr>timeStamp = Fin 1000, infiniteHeight = Fin 1000,
        contentHeight = Fin 1000, scrollHeight = Fin 1200, scrollTop = Fin 200\<rparr>]) False))) = 1"
  by (simp add: run_def ngAfterContentInit_def constructor_def setListeners_def
      scrollEvent_def onScroll_def distanceFromInfinite_def reloadY_def js_sub_def js_gt_def
      enabled_set_def enable_def complete_def runWrite_def writeCallback_def)

end
